theory Spec2Isabelle
  imports Complex_Main "HOL-Library.Word"
begin

unbundle bit_operations_syntax

section \<open>Virtual Plant: the simulation engine\<close>

text \<open>
  The program is a browser script. Its numbers are modelled as follows: resource levels
  and growth points are \<open>real\<close> (the arithmetic of the script read as exact
  arithmetic), instants are \<open>int\<close> milliseconds (what \<^verbatim>\<open>Date.now()\<close> returns),
  stage indices are \<open>nat\<close>. Every read of the clock (\<^verbatim>\<open>nowMs()\<close>) is a parameter of
  the function that reads it, in the order of the reads.
\<close>

subsection \<open>Constants and the state record\<close>

record StageDef =
  name :: string
  need :: real

definition STAGES :: "StageDef list" where
  "STAGES =
    [ \<lparr>name = ''Seed'', need = 0\<rparr>,
      \<lparr>name = ''Sprout'', need = 15\<rparr>,
      \<lparr>name = ''Stem'', need = 45\<rparr>,
      \<lparr>name = ''Leaves'', need = 90\<rparr>,
      \<lparr>name = ''Bushy'', need = 150\<rparr>,
      \<lparr>name = ''Flower'', need = 230\<rparr> ]"

definition BASE_GROWTH_PER_HOUR :: real where
  "BASE_GROWTH_PER_HOUR = 6"

text \<open>\<^verbatim>\<open>clamp(n, a, b) = Math.max(a, Math.min(b, n))\<close>, used on reals and on grid
  coordinates.\<close>

definition clamp :: "'a::linorder \<Rightarrow> 'a \<Rightarrow> 'a \<Rightarrow> 'a" where
  "clamp n a b = max a (min b n)"

record PlantState =
  createdAt :: int
  lastTickAt :: int
  growth :: real
  hydration :: real
  health :: real
  lastActionAt :: int
  sunlightBoostUntil :: int

text \<open>\<^verbatim>\<open>newPlant()\<close>; \<open>t\<close> is the clock value it reads.\<close>

definition newPlant :: "int \<Rightarrow> PlantState" where
  "newPlant t =
    \<lparr> createdAt = t,
      lastTickAt = t,
      growth = 0,
      hydration = 70,
      health = 85,
      lastActionAt = t,
      sunlightBoostUntil = 0 \<rparr>"

subsection \<open>Stages\<close>

text \<open>\<^verbatim>\<open>stageFromGrowth\<close>: the loop \<^verbatim>\<open>for(i=0;i<STAGES.length;i++) if(growth >= STAGES[i].need) idx = i\<close>
  is a left fold over the indices, with \<open>idx\<close> as the accumulator.\<close>

definition stageFromGrowth :: "real \<Rightarrow> nat" where
  "stageFromGrowth g =
     fold (\<lambda>i idx. if g \<ge> need (STAGES ! i) then i else idx) [0..<length STAGES] 0"

definition nextStageNeed :: "real \<Rightarrow> real" where
  "nextStageNeed g =
     (let idx = stageFromGrowth g
      in need (STAGES ! (min (idx + 1) (length STAGES - 1))))"

subsection \<open>The tick\<close>

text \<open>\<^verbatim>\<open>tick(state, timeScale)\<close>; \<open>t\<close> is the clock value read on entry. The
  assignments to the fields of \<open>state\<close> are done in the order of the source, each
  on the record as the previous one left it.\<close>

definition tick :: "int \<Rightarrow> real \<Rightarrow> PlantState \<Rightarrow> PlantState" where
  "tick t timeScale state0 =
    (let dtMs = real_of_int (max 0 (t - lastTickAt state0)) * timeScale;
         state1 = state0\<lparr>lastTickAt := t\<rparr>;
         hours = dtMs / (1000 * 60 * 60);
         state2 = state1\<lparr>hydration := clamp (hydration state1 - (hours * 8)) 0 100\<rparr>;
         hydrationTarget = hydration state2;
         delta = (hydrationTarget - 55) / 55;
         state3 = state2\<lparr>health := clamp (health state2 + (hours * (delta * 10))) 0 100\<rparr>;
         sunBoost = (if t < sunlightBoostUntil state3 then 1.35 else 1.0);
         hydrationFactor = clamp (hydration state3 / 80) 0 1.2;
         healthFactor = clamp (health state3 / 85) 0 1.2;
         rate = BASE_GROWTH_PER_HOUR * hydrationFactor * healthFactor * sunBoost;
         state4 = state3\<lparr>growth := max 0 (growth state3 + hours * rate)\<rparr>
     in state4)"

subsection \<open>User actions\<close>

text \<open>The click handlers of \<^verbatim>\<open>main\<close>. Each one adjusts the state and then calls
  \<^verbatim>\<open>doTick\<close>, whose effect on the state is \<^verbatim>\<open>tick(state, scale)\<close> (it also saves and
  renders). \<open>water\<close> and \<open>applySunlight\<close> are the adjustments before the tick;
  \<open>waterClick\<close> and \<open>sunClick\<close> are the whole handlers. The handlers read the clock
  several times: \<open>tA\<close>, \<open>tB\<close> are the reads of the handler, \<open>tT\<close> the read of the tick.\<close>

definition water :: "int \<Rightarrow> PlantState \<Rightarrow> PlantState" where
  "water tA state0 =
    (let state1 = state0\<lparr>hydration := clamp (hydration state0 + 25) 0 100\<rparr>;
         state2 = state1\<lparr>health := clamp (health state1 + 4) 0 100\<rparr>;
         state3 = state2\<lparr>lastActionAt := tA\<rparr>
     in state3)"

definition applySunlight :: "int \<Rightarrow> int \<Rightarrow> PlantState \<Rightarrow> PlantState" where
  "applySunlight tA tB state0 =
    (let state1 = state0\<lparr>sunlightBoostUntil := tA + 1000 * 60 * 30\<rparr>;
         state2 = state1\<lparr>health := clamp (health state1 + 2) 0 100\<rparr>;
         state3 = state2\<lparr>lastActionAt := tB\<rparr>
     in state3)"

definition waterClick :: "int \<Rightarrow> int \<Rightarrow> real \<Rightarrow> PlantState \<Rightarrow> PlantState" where
  "waterClick tA tT scale state0 = tick tT scale (water tA state0)"

definition sunClick :: "int \<Rightarrow> int \<Rightarrow> int \<Rightarrow> real \<Rightarrow> PlantState \<Rightarrow> PlantState" where
  "sunClick tA tB tT scale state0 = tick tT scale (applySunlight tA tB state0)"

text \<open>The reset handler (after the user confirms) replaces the state by a new plant and
  does not tick.\<close>

definition resetClick :: "int \<Rightarrow> PlantState \<Rightarrow> PlantState" where
  "resetClick t state0 = newPlant t"

text \<open>The ranges the data model gives the two resources.\<close>

definition inRange :: "PlantState \<Rightarrow> bool" where
  "inRange s \<longleftrightarrow> 0 \<le> hydration s \<and> hydration s \<le> 100 \<and> 0 \<le> health s \<and> health s \<le> 100"

section \<open>Virtual Plant: rendering\<close>

subsection \<open>Text of numbers and durations\<close>

text \<open>The script's strings are modelled as \<open>string\<close>; the one character outside
  ASCII that it writes, the em dash, stands as its three UTF-8 bytes. \<open>showInt\<close> is
  the decimal text that a template literal gives an integer (below \<open>10^21\<close> in
  magnitude, where JavaScript does not switch to exponent notation).\<close>

definition emDash :: string where
  "emDash = [CHR 0xE2, CHR 0x80, CHR 0x94]"

definition digitChar :: "nat \<Rightarrow> char" where
  "digitChar n = char_of (48 + n mod 10)"

fun showNat :: "nat \<Rightarrow> string" where
  "showNat n = (if n < 10 then [digitChar n] else showNat (n div 10) @ [digitChar (n mod 10)])"

declare showNat.simps [simp del]

definition showInt :: "int \<Rightarrow> string" where
  "showInt i = (if i < 0 then CHR ''-'' # showNat (nat (- i)) else showNat (nat i))"

text \<open>The remainder operator \<^verbatim>\<open>%\<close> of JavaScript on integers takes the sign of the
  dividend.\<close>

definition jsRem :: "int \<Rightarrow> int \<Rightarrow> int" where
  "jsRem a b = sgn a * (\<bar>a\<bar> mod \<bar>b\<bar>)"

definition fmtDuration :: "real \<Rightarrow> string" where
  "fmtDuration ms =
    (let s = \<lfloor>ms / 1000\<rfloor>;
         m = \<lfloor>real_of_int s / 60\<rfloor>;
         h = \<lfloor>real_of_int m / 60\<rfloor>;
         d = \<lfloor>real_of_int h / 24\<rfloor>
     in if d > 0 then showInt d @ ''d '' @ showInt (jsRem h 24) @ ''h''
        else if h > 0 then showInt h @ ''h '' @ showInt (jsRem m 60) @ ''m''
        else if m > 0 then showInt m @ ''m''
        else showInt s @ ''s'')"

subsection \<open>The page\<close>

text \<open>The elements of the page that the script writes, as a record: the text of the
  five status fields and of the message line, the children of the \<^verbatim>\<open>plant\<close> element
  (one positioned block per pixel, in the order they were appended), the text of
  the \<^verbatim>\<open>ascii\<close> element and the two style properties \<^verbatim>\<open>render\<close> sets.\<close>

type_synonym pixel = "int \<times> int \<times> string"

record Dom =
  stageEl :: string
  ageEl :: string
  hydrationEl :: string
  healthEl :: string
  nextEl :: string
  msgEl :: string
  plantEl :: "pixel list"
  asciiEl :: string
  asciiDisplay :: string
  plantOpacity :: string

text \<open>The page as loaded, before the script has written anything.\<close>

definition emptyPage :: Dom where
  "emptyPage =
    \<lparr> stageEl = [], ageEl = [], hydrationEl = [], healthEl = [], nextEl = [], msgEl = [],
      plantEl = [], asciiEl = [], asciiDisplay = [], plantOpacity = [] \<rparr>"

subsection \<open>Time to the next stage\<close>

text \<open>The part of \<^verbatim>\<open>render\<close> that computes the text of the \<^verbatim>\<open>next\<close> field; \<open>tNow\<close>
  is the clock value read for the sunlight boost. \<^verbatim>\<open>Infinity\<close> is \<open>None\<close>.\<close>

definition needsCare :: string where
  "needsCare = emDash @ '' (needs care)''"

definition nextText :: "int \<Rightarrow> PlantState \<Rightarrow> string" where
  "nextText tNow state =
    (let stageIdx = stageFromGrowth (growth state);
         nextNeed = nextStageNeed (growth state);
         remaining = max 0 (nextNeed - growth state);
         hydrationFactor = clamp (hydration state / 80) 0 1.2;
         healthFactor = clamp (health state / 85) 0 1.2;
         sunBoost = (if tNow < sunlightBoostUntil state then 1.35 else 1.0);
         rate = BASE_GROWTH_PER_HOUR * hydrationFactor * healthFactor * sunBoost;
         hoursToNext = (if rate > 0.2 then Some (remaining / rate) else None);
         eta = (case hoursToNext of
                  None \<Rightarrow> needsCare
                | Some hrs \<Rightarrow> fmtDuration (hrs * 3600 * 1000))
     in if stageIdx = length STAGES - 1 then ''Max stage'' else eta)"

subsection \<open>The pixel plant\<close>

text \<open>\<^verbatim>\<open>px(x, y, color)\<close> appends one block to the \<^verbatim>\<open>plant\<close> element.\<close>

definition px :: "int \<Rightarrow> int \<Rightarrow> string \<Rightarrow> pixel list \<Rightarrow> pixel list" where
  "px x y color plant = plant @ [(x, y, color)]"

text \<open>The two colours chosen from the (clamped) health.\<close>

definition leafGreen :: "real \<Rightarrow> string" where
  "leafGreen h = (if h > 60 then ''#68e36b'' else (if h > 35 then ''#b6df5a'' else ''#d6c56b''))"

definition stemDark :: "real \<Rightarrow> string" where
  "stemDark h = (if h > 60 then ''#2ea84a'' else (if h > 35 then ''#7aa63b'' else ''#9a8e39''))"

definition flowerColor :: string where
  "flowerColor = ''#ff7ad9''"

definition drawPot :: "pixel list \<Rightarrow> pixel list" where
  "drawPot plant0 =
    (let potColor = ''#c56b3c'';
         potDark = ''#9f4d24'';
         plant1 = fold (\<lambda>x p. fold (\<lambda>y q. px x y potColor q) [15..16] p) [7..14] plant0;
         plant2 = fold (\<lambda>x p. px x 17 potDark p) [6..15] plant1;
         plant3 = fold (\<lambda>x p. px x 18 potDark p) [7..14] plant2
     in plant3)"

text \<open>The stem: \<^verbatim>\<open>for(let y=14;y>=stemTop;y--) px(stemX,y,dark)\<close>.\<close>

definition drawStem :: "int \<Rightarrow> int \<Rightarrow> string \<Rightarrow> pixel list \<Rightarrow> pixel list" where
  "drawStem stemX stemTop dark plant0 = fold (\<lambda>y p. px stemX y dark p) (rev [stemTop..14]) plant0"

definition addLeaf :: "string \<Rightarrow> int \<Rightarrow> int \<Rightarrow> int \<Rightarrow> pixel list \<Rightarrow> pixel list" where
  "addLeaf green cx cy dir plant0 =
    (let c1 = green;
         plant1 = px (cx + 0 * dir) cy c1 plant0;
         plant2 = px (cx + 1 * dir) cy c1 plant1;
         plant3 = px (cx + 2 * dir) (cy + 1) c1 plant2;
         plant4 = px (cx + 1 * dir) (cy + 1) c1 plant3
     in plant4)"

text \<open>The block "Leaves by stage" of \<^verbatim>\<open>drawPlant\<close>.\<close>

definition drawLeaves :: "nat \<Rightarrow> string \<Rightarrow> int \<Rightarrow> pixel list \<Rightarrow> pixel list" where
  "drawLeaves stageIdx green stemX plant0 =
    (let plant1 = (if stageIdx \<ge> 2
                   then addLeaf green stemX 11 1 (addLeaf green stemX 12 (- 1) plant0)
                   else plant0);
         plant2 = (if stageIdx \<ge> 3
                   then addLeaf green stemX 9 1 (addLeaf green stemX 10 (- 1) plant1)
                   else plant1);
         plant3 = (if stageIdx \<ge> 4
                   then addLeaf green stemX 7 1 (addLeaf green stemX 8 (- 1) plant2)
                   else plant2)
     in plant3)"

text \<open>The generator of \<^verbatim>\<open>drawPlant\<close>: xorshift32 on a 32-bit seed. \<^verbatim>\<open>seed << 13\<close> and
  \<^verbatim>\<open>seed << 5\<close> are shifts of the 32-bit pattern, \<^verbatim>\<open>seed >>> 17\<close> is the logical shift
  right, and \<^verbatim>\<open>seed >>> 0\<close> reads the pattern as unsigned. A call of \<^verbatim>\<open>rand()\<close> replaces
  the seed by \<open>xorshift32 seed\<close> and returns \<open>unit32\<close> of the new seed; \<open>rand\<close> gives
  both.\<close>

definition initSeed :: "PlantState \<Rightarrow> 32 word" where
  "initSeed state = word_of_int \<lfloor>real_of_int (createdAt state) / 1000\<rfloor> XOR 0x9e3779b9"

definition xorshift32 :: "32 word \<Rightarrow> 32 word" where
  "xorshift32 seed0 =
    (let seed1 = seed0 XOR push_bit 13 seed0;
         seed2 = seed1 XOR drop_bit 17 seed1;
         seed3 = seed2 XOR push_bit 5 seed2
     in seed3)"

definition unit32 :: "32 word \<Rightarrow> real" where
  "unit32 seed = real_of_int (uint seed) / 4294967296"

definition rand :: "32 word \<Rightarrow> real \<times> 32 word" where
  "rand seed0 = (unit32 (xorshift32 seed0), xorshift32 seed0)"

text \<open>One round of the loop of \<^verbatim>\<open>drawVine\<close>, on the seed, the cursor and the
  \<^verbatim>\<open>plant\<close> element. The calls of \<^verbatim>\<open>rand()\<close> are in the order of the source: \<open>seed1\<close>,
  \<open>seed2\<close> and \<open>seed3\<close> are the seeds after the three calls every round makes; the
  fourth call happens only when a vine leaf is placed, the fifth only at stage index 5
  (\<^verbatim>\<open>stageIdx >= 5 && rand() < 0.10\<close>).\<close>

definition vineStep ::
  "int \<Rightarrow> nat \<Rightarrow> string \<Rightarrow> string \<Rightarrow> 32 word \<times> int \<times> int \<times> pixel list
     \<Rightarrow> 32 word \<times> int \<times> int \<times> pixel list" where
  "vineStep side stageIdx vineColor vineLeaf st =
    (case st of (seed0, x0, y0, plant0) \<Rightarrow>
      (let seed1 = xorshift32 seed0;
           drift = (if unit32 seed1 < 0.55 then side else 0);
           x = clamp (x0 + drift) 0 21;
           seed2 = xorshift32 seed1;
           y = clamp (y0 - (if unit32 seed2 < 0.75 then 1 else 0)) 0 18;
           plant1 = px x y vineColor plant0;
           seed3 = xorshift32 seed2;
           leafHere = (unit32 seed3 < 0.33);
           seed4 = (if leafHere then xorshift32 seed3 else seed3);
           plant2 = (if leafHere
                     then px (clamp (x + side) 0 21)
                             (clamp (y + (if unit32 seed4 < 0.5 then 0 else 1)) 0 19) vineLeaf plant1
                     else plant1);
           seed5 = (if stageIdx \<ge> 5 then xorshift32 seed4 else seed4);
           plant3 = (if stageIdx \<ge> 5 \<and> unit32 seed5 < 0.10
                     then px (clamp x 0 21) (clamp (y - 1) 0 19) flowerColor plant2
                     else plant2)
       in (seed5, x, y, plant3)))"

text \<open>\<^verbatim>\<open>drawVine(side)\<close>: the length is drawn first, then the loop runs \<open>len\<close> rounds
  (the body does not use the counter).\<close>

definition drawVine ::
  "int \<Rightarrow> nat \<Rightarrow> int \<Rightarrow> string \<Rightarrow> string \<Rightarrow> 32 word \<times> pixel list \<Rightarrow> 32 word \<times> pixel list" where
  "drawVine side stageIdx stemX vineColor vineLeaf st =
    (case st of (seed0, plant0) \<Rightarrow>
      (let x = stemX + side * 1;
           y = 12;
           seed1 = xorshift32 seed0;
           len = 10 + \<lfloor>unit32 seed1 * 6\<rfloor> + (if stageIdx \<ge> 5 then 4 else 0)
       in (case ((vineStep side stageIdx vineColor vineLeaf) ^^ (nat len)) (seed1, x, y, plant0) of
             (seed2, x', y', plant1) \<Rightarrow> (seed2, plant1))))"

text \<open>\<^verbatim>\<open>drawPlant(stageIdx, state)\<close> of the current script. It empties the \<^verbatim>\<open>plant\<close>
  element, then appends the pot, the stem, the leaves, from stage index 4 the two vines,
  at stage index 5 the flower, and the sparkle.\<close>

definition drawPlant :: "nat \<Rightarrow> PlantState \<Rightarrow> Dom \<Rightarrow> Dom" where
  "drawPlant stageIdx state page =
    (let plant0 = [];
         h = clamp (health state) 0 100;
         green = leafGreen h;
         dark = stemDark h;
         flower = flowerColor;
         seed0 = initSeed state;
         plant1 = drawPot plant0;
         stemX = 11;
         stemTop = 14 - min (int stageIdx * 2) 10;
         plant2 = drawStem stemX stemTop dark plant1;
         plant3 = drawLeaves stageIdx green stemX plant2;
         plant4 = (if stageIdx \<ge> 4
                   then snd (drawVine 1 stageIdx stemX dark green
                               (drawVine (- 1) stageIdx stemX dark green (seed0, plant3)))
                   else plant3);
         plant5 = (if stageIdx \<ge> 5
                   then (let topY = stemTop
                         in px stemX (topY + 1) flower
                              (px (stemX + 1) topY flower
                                (px (stemX - 1) topY flower
                                  (px stemX (topY - 1) flower plant4))))
                   else plant4);
         plant6 = (if health state > 90 \<and> hydration state > 70
                   then px 3 4 ''#6bd7ff'' (px 4 3 ''#6bd7ff'' (px 3 3 ''#ffffff'' plant5))
                   else plant5)
     in page\<lparr>plantEl := plant6\<rparr>)"

text \<open>\<^verbatim>\<open>drawPlant\<close> of \<^verbatim>\<open>src/plant.js\<close>, the earlier script: the same without the
  generator and the vines.\<close>

definition drawPlantLegacy :: "nat \<Rightarrow> PlantState \<Rightarrow> Dom \<Rightarrow> Dom" where
  "drawPlantLegacy stageIdx state page =
    (let plant0 = [];
         h = clamp (health state) 0 100;
         green = leafGreen h;
         dark = stemDark h;
         flower = flowerColor;
         plant1 = drawPot plant0;
         stemX = 11;
         stemTop = 14 - min (int stageIdx * 2) 10;
         plant2 = drawStem stemX stemTop dark plant1;
         plant3 = drawLeaves stageIdx green stemX plant2;
         plant5 = (if stageIdx \<ge> 5
                   then (let topY = stemTop
                         in px stemX (topY + 1) flower
                              (px (stemX + 1) topY flower
                                (px (stemX - 1) topY flower
                                  (px stemX (topY - 1) flower plant3))))
                   else plant3);
         plant6 = (if health state > 90 \<and> hydration state > 70
                   then px 3 4 ''#6bd7ff'' (px 4 3 ''#6bd7ff'' (px 3 3 ''#ffffff'' plant5))
                   else plant5)
     in page\<lparr>plantEl := plant6\<rparr>)"

subsection \<open>The text plant\<close>

text \<open>The grid of \<^verbatim>\<open>drawAsciiPlant\<close> is a list of \<open>H = 18\<close> rows of \<open>W = 32\<close>
  characters. \<^verbatim>\<open>put\<close> ignores a position outside the grid.\<close>

type_synonym grid = "char list list"

definition put :: "int \<Rightarrow> int \<Rightarrow> char \<Rightarrow> grid \<Rightarrow> grid" where
  "put x y ch g =
    (if x < 0 \<or> y < 0 \<or> x \<ge> 32 \<or> y \<ge> 18 then g
     else g[nat y := (g ! nat y)[nat x := ch]])"

text \<open>Reading the grid: the character in column \<open>x\<close> of row \<open>y\<close>.\<close>

definition cell :: "grid \<Rightarrow> int \<Rightarrow> int \<Rightarrow> char" where
  "cell g x y = g ! nat y ! nat x"

text \<open>The shape of the grid: \<open>H\<close> rows of \<open>W\<close> characters.\<close>

definition shape :: "grid \<Rightarrow> bool" where
  "shape g \<longleftrightarrow> length g = 18 \<and> (\<forall>r \<in> set g. length r = 32)"

definition asciiPot :: "grid \<Rightarrow> grid" where
  "asciiPot g0 =
    (let potTopY = 13;
         g1 = fold (\<lambda>x g. put x potTopY CHR ''_'' g) [12..19] g0;
         g2 = put 11 (potTopY + 1) CHR ''/'' g1;
         g3 = fold (\<lambda>x g. put x (potTopY + 1) CHR '' '' g) [12..19] g2;
         g4 = put 20 (potTopY + 1) CHR 0x5C g3;
         g5 = put 11 (potTopY + 2) CHR ''|'' g4;
         g6 = fold (\<lambda>x g. put x (potTopY + 2) CHR ''#'' g) [12..19] g5;
         g7 = put 20 (potTopY + 2) CHR ''|'' g6;
         g8 = put 12 (potTopY + 3) CHR 0x5C g7;
         g9 = fold (\<lambda>x g. put x (potTopY + 3) CHR ''_'' g) [13..18] g8;
         g10 = put 19 (potTopY + 3) CHR ''/'' g9
     in g10)"

definition asciiStem :: "int \<Rightarrow> int \<Rightarrow> grid \<Rightarrow> grid" where
  "asciiStem stemX stemTop g0 = fold (\<lambda>y g. put stemX y CHR ''|'' g) (rev [stemTop..12]) g0"

definition leaf :: "int \<Rightarrow> int \<Rightarrow> int \<Rightarrow> grid \<Rightarrow> grid" where
  "leaf stemX y dir g0 =
    (let g1 = put (stemX + dir) y (if dir < 0 then CHR ''<'' else CHR ''>'') g0;
         g2 = put (stemX + dir * 2) y CHR ''-'' g1
     in g2)"

text \<open>The block "Leaves" of \<^verbatim>\<open>drawAsciiPlant\<close>.\<close>

definition asciiLeaves :: "nat \<Rightarrow> int \<Rightarrow> grid \<Rightarrow> grid" where
  "asciiLeaves stageIdx stemX g0 =
    (let g1 = (if stageIdx \<ge> 1 then leaf stemX 10 1 (leaf stemX 11 (- 1) g0) else g0);
         g2 = (if stageIdx \<ge> 2 then leaf stemX 8 1 (leaf stemX 9 (- 1) g1) else g1);
         g3 = (if stageIdx \<ge> 3 then leaf stemX 6 1 (leaf stemX 7 (- 1) g2) else g2)
     in g3)"

text \<open>One round of the loop of \<^verbatim>\<open>curl\<close>, for the counter \<open>i\<close>, on the cursor and the
  grid; then the loop over \<open>i = 0, ..., len - 1\<close>.\<close>

definition curlStep :: "int \<Rightarrow> nat \<Rightarrow> int \<times> int \<times> grid \<Rightarrow> int \<times> int \<times> grid" where
  "curlStep side i st =
    (case st of (x0, y0, g0) \<Rightarrow>
      (let x = (if i mod 2 = 0 then x0 + side else x0);
           y = (if i mod 3 \<noteq> 0 then y0 - 1 else y0);
           g1 = put x y (if side < 0 then CHR ''/'' else CHR 0x5C) g0;
           g2 = (if i mod 4 = 0 then put (x + side) y CHR ''*'' g1 else g1)
       in (x, y, g2)))"

definition curl :: "int \<Rightarrow> nat \<Rightarrow> int \<Rightarrow> int \<Rightarrow> grid \<Rightarrow> grid" where
  "curl side stageIdx stemX seeded g0 =
    (let x = stemX + side;
         y = 10;
         len = 8 + (if stageIdx \<ge> 4 then 6 else 0) + jsRem seeded 4;
         (x', y', g1) = fold (curlStep side) [0..<nat len] (x, y, g0)
     in g1)"

definition asciiTitle :: "nat \<Rightarrow> string" where
  "asciiTitle stageIdx =
     ''VIRTUAL PLANT  stage:'' @ showInt (int stageIdx + 1) @ ''/'' @ showInt (int (length STAGES))"

text \<open>The grid that \<^verbatim>\<open>drawAsciiPlant\<close> builds when the text mode is on.\<close>

definition asciiGrid :: "nat \<Rightarrow> PlantState \<Rightarrow> grid" where
  "asciiGrid stageIdx state =
    (let g0 = replicate 18 (replicate 32 CHR '' '');
         g1 = asciiPot g0;
         stemX = 16;
         stemTop = 11 - min (int stageIdx * 2) 8;
         g2 = asciiStem stemX stemTop g1;
         g3 = asciiLeaves stageIdx stemX g2;
         seeded = \<lfloor>real_of_int (createdAt state) / 1000\<rfloor>;
         g4 = (if stageIdx \<ge> 4
               then curl 1 stageIdx stemX seeded (curl (- 1) stageIdx stemX seeded g3)
               else g3);
         g5 = (if stageIdx \<ge> 5
               then put (stemX + 1) stemTop CHR '')''
                      (put (stemX - 1) stemTop CHR ''(''
                        (put stemX (stemTop - 1) CHR ''@'' g4))
               else g4);
         title = asciiTitle stageIdx;
         g6 = fold (\<lambda>i g. g[0 := (g ! 0)[i := title ! i]]) [0..<min 32 (length title)] g5
     in g6)"

fun joinLines :: "string list \<Rightarrow> string" where
  "joinLines [] = []"
| "joinLines [r] = r"
| "joinLines (r # rs) = r @ [CHR 0x0A] @ joinLines rs"

definition drawAsciiPlant :: "nat \<Rightarrow> PlantState \<Rightarrow> bool \<Rightarrow> Dom \<Rightarrow> Dom" where
  "drawAsciiPlant stageIdx state enabled page =
    (if \<not> enabled then page\<lparr>asciiEl := []\<rparr>
     else page\<lparr>asciiEl := joinLines (asciiGrid stageIdx state)\<rparr>)"

subsection \<open>The whole render\<close>

text \<open>\<^verbatim>\<open>Math.round\<close> rounds to the nearest integer, a half upwards.\<close>

definition jsRound :: "real \<Rightarrow> int" where
  "jsRound x = \<lfloor>x + 1 / 2\<rfloor>"

text \<open>\<^verbatim>\<open>render(state)\<close> of the current script. It reads the clock twice, for the age
  (\<open>tAge\<close>) and for the sunlight boost (\<open>tBoost\<close>), and the flag
  \<^verbatim>\<open>window.__asciiMode\<close> (\<open>asciiMode\<close>).\<close>

definition render :: "int \<Rightarrow> int \<Rightarrow> bool \<Rightarrow> PlantState \<Rightarrow> Dom \<Rightarrow> Dom" where
  "render tAge tBoost asciiMode state page0 =
    (let stageIdx = stageFromGrowth (growth state);
         stage = STAGES ! stageIdx;
         page1 = page0\<lparr>stageEl := showInt (int stageIdx + 1) @ ''/'' @ showInt (int (length STAGES))
                                   @ '' '' @ emDash @ '' '' @ name stage\<rparr>;
         page2 = page1\<lparr>ageEl := fmtDuration (real_of_int (tAge - createdAt state))\<rparr>;
         page3 = page2\<lparr>hydrationEl := showInt (jsRound (hydration state)) @ ''%''\<rparr>;
         page4 = page3\<lparr>healthEl := showInt (jsRound (health state)) @ ''%''\<rparr>;
         page5 = page4\<lparr>nextEl := nextText tBoost state\<rparr>;
         asciiEnabled = asciiMode;
         page6 = drawAsciiPlant stageIdx state asciiEnabled page5;
         page7 = drawPlant stageIdx state page6;
         page8 = page7\<lparr>asciiDisplay := (if asciiEnabled then ''block'' else ''none'')\<rparr>;
         page9 = page8\<lparr>plantOpacity := (if asciiEnabled then ''0.12'' else ''1'')\<rparr>
     in page9)"

section \<open>Virtual Plant: persistence and startup\<close>

text \<open>
  \<^verbatim>\<open>loadState\<close> calls two functions of the browser, \<^verbatim>\<open>localStorage.getItem\<close> and
  \<^verbatim>\<open>JSON.parse\<close>; each can throw. The outcome of the read is the parameter \<open>getItem\<close>
  (an exception, \<^verbatim>\<open>null\<close> as \<open>None\<close>, or the stored text), the parser is the parameter
  \<open>parse\<close> (an exception or a JSON value).
\<close>

datatype json =
  JNull | JBool bool | JNum real | JStr string | JArr "json list" | JObj "(string \<times> json) list"

datatype jsError = Thrown

text \<open>What \<^verbatim>\<open>!v\<close> and \<^verbatim>\<open>v || w\<close> test: every JSON value is truthy but \<^verbatim>\<open>null\<close>,
  \<^verbatim>\<open>false\<close>, zero and the empty string.\<close>

fun truthy :: "json \<Rightarrow> bool" where
  "truthy JNull = False"
| "truthy (JBool b) = b"
| "truthy (JNum n) = (n \<noteq> 0)"
| "truthy (JStr s) = (s \<noteq> [])"
| "truthy (JArr xs) = True"
| "truthy (JObj fs) = True"

text \<open>The body of the \<^verbatim>\<open>try\<close> block of \<^verbatim>\<open>loadState\<close>, then the function with its
  \<^verbatim>\<open>catch\<close>, which returns \<^verbatim>\<open>null\<close>.\<close>

definition loadStateTry :: "jsError + string option \<Rightarrow> (string \<Rightarrow> jsError + json) \<Rightarrow> jsError + json" where
  "loadStateTry getItem parse =
    (case getItem of
       Inl e \<Rightarrow> Inl e
     | Inr raw \<Rightarrow>
        (case raw of
           None \<Rightarrow> Inr JNull
         | Some r \<Rightarrow> if r = [] then Inr JNull else parse r))"

definition loadState :: "jsError + string option \<Rightarrow> (string \<Rightarrow> jsError + json) \<Rightarrow> jsError + json" where
  "loadState getItem parse =
    (case loadStateTry getItem parse of
       Inl e \<Rightarrow> Inr JNull
     | Inr v \<Rightarrow> Inr v)"

text \<open>\<^verbatim>\<open>let state = loadState() || newPlant()\<close> in \<^verbatim>\<open>main\<close>: the state the program
  starts with is the loaded value when it is truthy, and else a new plant (\<open>t\<close> is
  the clock value \<^verbatim>\<open>newPlant\<close> reads).\<close>

datatype startState = Loaded json | Created PlantState

definition startup ::
  "jsError + string option \<Rightarrow> (string \<Rightarrow> jsError + json) \<Rightarrow> int \<Rightarrow> jsError + startState" where
  "startup getItem parse t =
    (case loadState getItem parse of
       Inl e \<Rightarrow> Inl e
     | Inr v \<Rightarrow> Inr (if truthy v then Loaded v else Created (newPlant t)))"

text \<open>A parser for the closed examples below: it agrees with \<^verbatim>\<open>JSON.parse\<close> on the
  texts \<^verbatim>\<open>{}\<close> and \<^verbatim>\<open>null\<close> and on the text \<^verbatim>\<open>{oops\<close>, which is not JSON; it is not
  meant for other texts.\<close>

definition parseSample :: "string \<Rightarrow> jsError + json" where
  "parseSample raw =
    (if raw = ''{}'' then Inr (JObj [])
     else if raw = ''null'' then Inr JNull
     else Inl Thrown)"

section \<open>Properties of the simulation engine\<close>

lemma clamp_bounds: "a \<le> b \<Longrightarrow> a \<le> clamp n a b \<and> clamp n a b \<le> b"
  by (simp add: clamp_def)

lemma clamp_id: "a \<le> n \<Longrightarrow> n \<le> b \<Longrightarrow> clamp n a b = n"
  by (simp add: clamp_def)

lemma inRange_tick: "inRange (tick t k s)"
  by (simp add: inRange_def tick_def Let_def clamp_def)

lemma inRange_water: "inRange (water tA s)"
  by (simp add: inRange_def water_def Let_def clamp_def)

lemma inRange_applySunlight: "inRange s \<Longrightarrow> inRange (applySunlight tA tB s)"
  by (simp add: inRange_def applySunlight_def Let_def clamp_def)

lemma inRange_newPlant: "inRange (newPlant t)"
  by (simp add: inRange_def newPlant_def)

text \<open>
  C1. From a state whose hydration and health lie in [0,100], the tick (any clock value,
  hence any non-negative elapsed time, and any positive time scale), the water action,
  the sunlight action and reset each give a state whose hydration and health lie in
  [0,100] again. The actions are covered both as the adjustment alone and as the whole
  click handler, which ticks afterwards.
\<close>

theorem C1_resources_stay_in_range:
  assumes "inRange s" and "0 < k"
  shows "inRange (tick t k s)
       \<and> inRange (water tA s) \<and> inRange (waterClick tA tT k s)
       \<and> inRange (applySunlight tA tB s) \<and> inRange (sunClick tA tB tT k s)
       \<and> inRange (resetClick t s)"
  using assms
  by (simp add: inRange_tick inRange_water inRange_applySunlight inRange_newPlant
      waterClick_def sunClick_def resetClick_def)

theorem C1_resources_stay_in_range_witness:
  "inRange (newPlant 0) \<and> (0::real) < 60
   \<and> inRange (tick 3600000 60 (newPlant 0))
   \<and> inRange (water 5 (newPlant 0)) \<and> inRange (waterClick 5 6 60 (newPlant 0))
   \<and> inRange (applySunlight 5 5 (newPlant 0)) \<and> inRange (sunClick 5 5 6 60 (newPlant 0))
   \<and> inRange (resetClick 3600000 (newPlant 0))"
proof -
  have h: "inRange (newPlant 0)"
    by (simp add: inRange_def newPlant_def)
  have k: "(0::real) < 60"
    by simp
  show ?thesis
    using h k C1_resources_stay_in_range [OF h k, of 3600000 5 6 5] by simp
qed

text \<open>The growth written by a tick, with the quantities of the source named.\<close>

lemma growth_tick:
  fixes t :: int and k :: real and s :: PlantState
  defines "hours \<equiv> real_of_int (max 0 (t - lastTickAt s)) * k / (1000 * 60 * 60)"
  defines "hy \<equiv> clamp (hydration s - (hours * 8)) 0 100"
  defines "he \<equiv> clamp (health s + (hours * ((hy - 55) / 55 * 10))) 0 100"
  defines "rate \<equiv> BASE_GROWTH_PER_HOUR * clamp (hy / 80) 0 1.2 * clamp (he / 85) 0 1.2
      * (if t < sunlightBoostUntil s then 1.35 else 1.0)"
  shows "growth (tick t k s) = max 0 (growth s + hours * rate)"
    and "hydration (tick t k s) = hy"
    and "health (tick t k s) = he"
  unfolding tick_def Let_def hours_def hy_def he_def rate_def
  by (cases s, simp only: PlantState.select_convs PlantState.update_convs)+

lemma tick_frame:
  "lastTickAt (tick t k s) = t"
  "createdAt (tick t k s) = createdAt s"
  "lastActionAt (tick t k s) = lastActionAt s"
  "sunlightBoostUntil (tick t k s) = sunlightBoostUntil s"
  by (simp_all add: tick_def Let_def)

lemma rate_nonneg:
  "0 \<le> BASE_GROWTH_PER_HOUR * clamp (a / 80) 0 1.2 * clamp (b / 85) 0 1.2
      * (if c then 1.35 else 1.0)"
proof -
  have "0 \<le> clamp (a / 80) 0 (1.2::real)" and "0 \<le> clamp (b / 85) 0 (1.2::real)"
    by (simp_all add: clamp_def)
  then show ?thesis
    by (simp add: BASE_GROWTH_PER_HOUR_def)
qed

text \<open>
  C2. From a state with growth \<open>\<ge> 0\<close> and hydration, health in [0,100], a tick with any
  clock value (the elapsed time is \<open>max 0 (t - lastTickAt)\<close>, never negative) and a
  positive time scale gives a growth that is at least the growth before.
\<close>

theorem C2_growth_never_decreases:
  assumes "0 \<le> growth s" and "inRange s" and "0 < k"
  shows "growth s \<le> growth (tick t k s)"
proof -
  have "0 \<le> real_of_int (max 0 (t - lastTickAt s)) * k / (1000 * 60 * 60)"
    using assms(3) by simp
  then have "growth s \<le> growth s + real_of_int (max 0 (t - lastTickAt s)) * k / (1000 * 60 * 60) * r"
    if "0 \<le> r" for r
    using that by simp
  then show ?thesis
    using rate_nonneg by (simp only: growth_tick(1) max.coboundedI2)
qed

theorem C2_growth_never_decreases_witness:
  "0 \<le> growth (newPlant 0) \<and> inRange (newPlant 0) \<and> (0::real) < 1
   \<and> growth (newPlant 0) \<le> growth (tick 3600000 1 (newPlant 0))"
proof -
  have g: "0 \<le> growth (newPlant 0)"
    by (simp add: newPlant_def)
  have h: "inRange (newPlant 0)"
    by (simp add: inRange_def newPlant_def)
  have k: "(0::real) < 1"
    by simp
  show ?thesis
    using g h C2_growth_never_decreases [OF g h k, of 3600000] by simp
qed

text \<open>
  C3. A state with the fresh plant's values (growth 0, hydration 70, health 85), ticked
  exactly one hour after its last tick at time scale 1: hydration is 62, health is
  \<open>85 + ((62 - 55) / 55) * 10\<close>, computed from the hydration the same tick has just
  written, and growth is positive. The growth is given for both values of the
  sunlight boost; without a boost it is \<open>6 * (62 / 80) * (health / 85)\<close>. The
  time fields of the state are arbitrary, so this covers \<open>newPlant t\<close> for every \<open>t\<close>.
\<close>

lemma fresh_one_hour:
  fixes s :: PlantState
  assumes g: "growth s = 0" and hy: "hydration s = 70" and he: "health s = 85"
    and t: "t = lastTickAt s + 3600000"
  shows "hydration (tick t 1 s) = 62"
    and "health (tick t 1 s) = 85 + ((62 - 55) / 55) * 10"
    and "growth (tick t 1 s) = 6 * (62 / 80) * ((85 + ((62 - 55) / 55) * 10) / 85)
           * (if t < sunlightBoostUntil s then 1.35 else 1.0)"
proof -
  have hrs: "real_of_int (max 0 (t - lastTickAt s)) * 1 / (1000 * 60 * 60) = 1"
    by (simp add: t)
  have c1: "clamp (hydration s - 1 * 8) 0 100 = 62"
    by (simp add: hy clamp_def)
  have c2: "clamp (health s + 1 * ((62 - 55) / 55 * 10)) 0 100 = 85 + ((62 - 55) / 55) * 10"
    by (simp add: he clamp_def)
  have c3: "clamp (62 / 80) 0 1.2 = (62 / 80 :: real)"
    by (simp add: clamp_def)
  have c4: "clamp ((85 + ((62 - 55) / 55) * 10) / 85) 0 1.2
      = ((85 + ((62 - 55) / 55) * 10) / 85 :: real)"
    by (simp add: clamp_def)
  show "hydration (tick t 1 s) = 62"
    by (simp only: growth_tick(2) hrs c1)
  show "health (tick t 1 s) = 85 + ((62 - 55) / 55) * 10"
    by (simp only: growth_tick(3) hrs c1 c2)
  have "growth (tick t 1 s) = max 0 (0 + 1 * (6 * (62 / 80) * ((85 + ((62 - 55) / 55) * 10) / 85)
           * (if t < sunlightBoostUntil s then 1.35 else 1.0)))"
    by (simp only: growth_tick(1) hrs c1 c2 c3 c4 g BASE_GROWTH_PER_HOUR_def)
  then show "growth (tick t 1 s) = 6 * (62 / 80) * ((85 + ((62 - 55) / 55) * 10) / 85)
           * (if t < sunlightBoostUntil s then 1.35 else 1.0)"
    by simp
qed

theorem C3_fresh_plant_one_hour:
  fixes s :: PlantState
  defines "fresh \<equiv> s\<lparr>growth := 0, hydration := 70, health := 85\<rparr>"
  defines "s' \<equiv> tick (lastTickAt s + 3600000) 1 fresh"
  shows "hydration s' = 62
    \<and> health s' = 85 + ((62 - 55) / 55) * 10
    \<and> growth s' = 6 * (62 / 80) * ((85 + ((62 - 55) / 55) * 10) / 85)
           * (if lastTickAt s + 3600000 < sunlightBoostUntil s then 1.35 else 1.0)
    \<and> 0 < growth s'"
proof -
  have f: "growth fresh = 0" "hydration fresh = 70" "health fresh = 85"
    "lastTickAt s + 3600000 = lastTickAt fresh + 3600000"
    "sunlightBoostUntil fresh = sunlightBoostUntil s"
    by (simp_all add: fresh_def)
  note r = fresh_one_hour [OF f(1-4), unfolded f(5), folded s'_def]
  have "0 < growth s'"
    unfolding r(3) by simp
  with r show ?thesis
    by simp
qed

text \<open>When the clock has not moved past \<open>lastTickAt\<close> the elapsed time is clamped to
  0: the resources and the growth of a valid state stay, and \<open>lastTickAt\<close> takes the
  clock value.\<close>

lemma tick_no_elapsed:
  assumes "0 \<le> growth s" and "inRange s" and "t \<le> lastTickAt s"
  shows "tick t k s = s\<lparr>lastTickAt := t\<rparr>"
  using assms by (simp add: tick_def Let_def clamp_def inRange_def)

text \<open>
  C7. A tick of a valid state (growth \<open>\<ge> 0\<close>, hydration and health in [0,100]) at zero
  elapsed wall time, that is with the clock at \<open>lastTickAt\<close>, leaves hydration, health
  and growth as they are; \<open>lastTickAt\<close> is not earlier than before (it is the same
  instant), and in fact the whole state is unchanged.
\<close>

theorem C7_zero_elapsed_tick:
  assumes "0 \<le> growth s" and "inRange s"
  shows "hydration (tick (lastTickAt s) k s) = hydration s
       \<and> health (tick (lastTickAt s) k s) = health s
       \<and> growth (tick (lastTickAt s) k s) = growth s
       \<and> lastTickAt s \<le> lastTickAt (tick (lastTickAt s) k s)
       \<and> tick (lastTickAt s) k s = s"
  using assms by (simp add: tick_no_elapsed)

theorem C7_zero_elapsed_tick_witness:
  "0 \<le> growth (newPlant 7) \<and> inRange (newPlant 7)
   \<and> hydration (tick 7 60 (newPlant 7)) = 70
   \<and> health (tick 7 60 (newPlant 7)) = 85
   \<and> growth (tick 7 60 (newPlant 7)) = 0
   \<and> lastTickAt (tick 7 60 (newPlant 7)) = 7"
proof -
  have g: "0 \<le> growth (newPlant 7)"
    by (simp add: newPlant_def)
  have h: "inRange (newPlant 7)"
    by (simp add: inRange_def newPlant_def)
  have l: "lastTickAt (newPlant 7) = 7"
    by (simp add: newPlant_def)
  show ?thesis
    using g h C7_zero_elapsed_tick [OF g h, of 60] unfolding l
    by (simp add: newPlant_def)
qed

subsection \<open>Stages\<close>

lemma upt6: "[0..<6] = [0, 1, 2, 3, 4, 5::nat]"
  by (simp add: upt_rec)

lemma len_STAGES: "length STAGES = 6"
  by (simp add: STAGES_def)

lemma lt6: "(i::nat) < 6 \<longleftrightarrow> i = 0 \<or> i = 1 \<or> i = 2 \<or> i = 3 \<or> i = 4 \<or> i = 5"
  by arith

lemma stageFromGrowth_closed:
  "stageFromGrowth g =
     (if 230 \<le> g then 5 else if 150 \<le> g then 4 else if 90 \<le> g then 3
      else if 45 \<le> g then 2 else if 15 \<le> g then 1 else 0)"
  by (simp add: stageFromGrowth_def STAGES_def upt6)

lemma stageFromGrowth_less: "stageFromGrowth g < length STAGES"
  by (simp add: stageFromGrowth_closed len_STAGES)

lemma stageFromGrowth_need_le: "0 \<le> g \<Longrightarrow> need (STAGES ! stageFromGrowth g) \<le> g"
  by (simp add: stageFromGrowth_closed STAGES_def)

lemma stageFromGrowth_greatest:
  "i < length STAGES \<Longrightarrow> need (STAGES ! i) \<le> g \<Longrightarrow> i \<le> stageFromGrowth g"
  unfolding len_STAGES lt6
  by (elim disjE) (simp_all add: stageFromGrowth_closed STAGES_def)

lemma stageFromGrowth_mono: "g \<le> g' \<Longrightarrow> stageFromGrowth g \<le> stageFromGrowth g'"
  by (simp add: stageFromGrowth_closed)

text \<open>
  C4. For growth \<open>\<ge> 0\<close>, \<open>stageFromGrowth\<close> is the largest index of the stage table
  whose threshold is at most the growth: it is an index of the table, its threshold is
  at most the growth, and every index with such a threshold is at most it. Growth 150,
  exactly the threshold of Bushy, gives the index of Bushy (4). The function is
  monotone in the growth.
\<close>

theorem C4_stage_is_largest_threshold_index:
  assumes "0 \<le> g"
  shows "stageFromGrowth g < length STAGES
       \<and> need (STAGES ! stageFromGrowth g) \<le> g
       \<and> (\<forall>i < length STAGES. need (STAGES ! i) \<le> g \<longrightarrow> i \<le> stageFromGrowth g)
       \<and> (stageFromGrowth 150 = 4 \<and> name (STAGES ! 4) = ''Bushy'' \<and> need (STAGES ! 4) = 150)
       \<and> (\<forall>a b. a \<le> b \<longrightarrow> stageFromGrowth a \<le> stageFromGrowth b)"
proof -
  have "stageFromGrowth 150 = 4 \<and> name (STAGES ! 4) = ''Bushy'' \<and> need (STAGES ! 4) = 150"
    by (simp add: stageFromGrowth_closed STAGES_def)
  moreover have "\<forall>i < length STAGES. need (STAGES ! i) \<le> g \<longrightarrow> i \<le> stageFromGrowth g"
    by (simp add: stageFromGrowth_greatest)
  moreover have "\<forall>a b. a \<le> b \<longrightarrow> stageFromGrowth a \<le> stageFromGrowth b"
    by (simp add: stageFromGrowth_mono)
  ultimately show ?thesis
    using assms stageFromGrowth_less [of g] stageFromGrowth_need_le [of g] by blast
qed

theorem C4_stage_is_largest_threshold_index_witness:
  "(0::real) \<le> 150 \<and> stageFromGrowth 150 < length STAGES
   \<and> need (STAGES ! stageFromGrowth 150) \<le> 150
   \<and> stageFromGrowth 149 = 3 \<and> 4 \<le> stageFromGrowth 150 \<and> stageFromGrowth 150 \<le> stageFromGrowth 229"
proof -
  have h: "(0::real) \<le> 150"
    by simp
  have a: "stageFromGrowth 149 = 3"
    by (simp add: stageFromGrowth_def STAGES_def upt6)
  have b: "(4::nat) < length STAGES \<and> need (STAGES ! 4) \<le> 150"
    by (simp add: STAGES_def)
  have c: "(150::real) \<le> 229"
    by simp
  show ?thesis
    using h a b c C4_stage_is_largest_threshold_index [OF h] by blast
qed

section \<open>Properties of the renderer\<close>

subsection \<open>Time to the next stage\<close>

lemma next_need:
  assumes "stageFromGrowth g \<noteq> length STAGES - 1"
  shows "nextStageNeed g = need (STAGES ! (stageFromGrowth g + 1))"
    and "g < nextStageNeed g"
  using assms
  by (simp_all add: nextStageNeed_def stageFromGrowth_closed STAGES_def split: if_splits)

lemma nextText_cases:
  fixes state :: PlantState and tNow :: int
  defines "rate \<equiv> BASE_GROWTH_PER_HOUR * clamp (hydration state / 80) 0 1.2
      * clamp (health state / 85) 0 1.2 * (if tNow < sunlightBoostUntil state then 1.35 else 1.0)"
  defines "idx \<equiv> stageFromGrowth (growth state)"
  shows "nextText tNow state =
     (if idx = length STAGES - 1 then ''Max stage''
      else if rate > 0.2
        then fmtDuration (max 0 (nextStageNeed (growth state) - growth state) / rate * 3600 * 1000)
      else needsCare)"
  unfolding nextText_def Let_def rate_def idx_def
  by (simp only: option.case if_distrib [of "case_option _ _"] cong: if_cong)

text \<open>
  C5. The text of the \<^verbatim>\<open>next\<close> field that \<^verbatim>\<open>render\<close> computes, for every state and clock
  value, with \<open>rate\<close> the growth rate recomputed from the state at that clock value:
  it is \<^verbatim>\<open>Max stage\<close> when the stage index is the last one; otherwise it is the
  "needs care" text when \<open>rate \<le> 0.2\<close>; otherwise it is the duration text of
  \<open>(threshold of the next stage - growth) / rate\<close> hours in milliseconds (times 3600 times
  1000), as \<^verbatim>\<open>fmtDuration\<close> writes it.
\<close>

theorem C5_eta_to_next_stage:
  fixes state :: PlantState and tNow :: int
  defines "rate \<equiv> BASE_GROWTH_PER_HOUR * clamp (hydration state / 80) 0 1.2
      * clamp (health state / 85) 0 1.2 * (if tNow < sunlightBoostUntil state then 1.35 else 1.0)"
  defines "idx \<equiv> stageFromGrowth (growth state)"
  shows "(idx = length STAGES - 1 \<longrightarrow> nextText tNow state = ''Max stage'')
       \<and> (idx \<noteq> length STAGES - 1 \<and> rate \<le> 0.2 \<longrightarrow> nextText tNow state = needsCare)
       \<and> (idx \<noteq> length STAGES - 1 \<and> rate > 0.2 \<longrightarrow>
            nextText tNow state =
              fmtDuration ((need (STAGES ! (idx + 1)) - growth state) / rate * 3600 * 1000))"
proof -
  have "max 0 (nextStageNeed (growth state) - growth state)
      = need (STAGES ! (idx + 1)) - growth state"
    if "idx \<noteq> length STAGES - 1"
    using next_need [of "growth state"] that unfolding idx_def by simp
  then show ?thesis
    unfolding nextText_cases idx_def [symmetric] rate_def [symmetric] by auto
qed

theorem C5_eta_to_next_stage_witness:
  "stageFromGrowth (growth ((newPlant 0)\<lparr>growth := 230\<rparr>)) = length STAGES - 1
   \<and> nextText 0 ((newPlant 0)\<lparr>growth := 230\<rparr>) = ''Max stage''
   \<and> stageFromGrowth (growth ((newPlant 0)\<lparr>hydration := 0\<rparr>)) \<noteq> length STAGES - 1
   \<and> nextText 0 ((newPlant 0)\<lparr>hydration := 0\<rparr>) = needsCare
   \<and> stageFromGrowth (growth (newPlant 0)) \<noteq> length STAGES - 1
   \<and> nextText 0 (newPlant 0) = fmtDuration ((15 - 0) / (21 / 4) * 3600 * 1000)
   \<and> fmtDuration ((15 - 0) / (21 / 4) * 3600 * 1000) = ''2h 51m''"
proof -
  let ?dry = "(newPlant 0)\<lparr>hydration := 0\<rparr>"
  let ?rate = "\<lambda>s. BASE_GROWTH_PER_HOUR * clamp (hydration s / 80) 0 1.2
      * clamp (health s / 85) 0 1.2 * (if 0 < sunlightBoostUntil s then 1.35 else 1.0)"
  have a: "stageFromGrowth (growth ((newPlant 0)\<lparr>growth := 230\<rparr>)) = length STAGES - 1"
    by (simp add: newPlant_def stageFromGrowth_closed STAGES_def)
  have b: "stageFromGrowth (growth ?dry) \<noteq> length STAGES - 1"
    "stageFromGrowth (growth (newPlant 0)) \<noteq> length STAGES - 1"
    by (simp_all add: newPlant_def stageFromGrowth_closed STAGES_def)
  have r0: "?rate ?dry \<le> 0.2"
    by (simp add: newPlant_def clamp_def)
  have r1: "?rate (newPlant 0) = 21 / 4"
    by (simp add: newPlant_def clamp_def BASE_GROWTH_PER_HOUR_def)
  then have r1': "?rate (newPlant 0) > 0.2"
    by simp
  have n: "need (STAGES ! (stageFromGrowth 0 + 1)) = 15"
    "growth (newPlant 0) = 0"
    by (simp_all add: newPlant_def stageFromGrowth_closed STAGES_def)
  have f: "fmtDuration ((15 - 0) / (21 / 4) * 3600 * 1000) = ''2h 51m''"
    apply (simp add: fmtDuration_def Let_def jsRem_def showInt_def)
    apply code_simp
    done
  have "nextText 0 ((newPlant 0)\<lparr>growth := 230\<rparr>) = ''Max stage''"
    using C5_eta_to_next_stage [where tNow = 0 and state = "(newPlant 0)\<lparr>growth := 230\<rparr>"] a
    by blast
  moreover have "nextText 0 ?dry = needsCare"
    using C5_eta_to_next_stage [where tNow = 0 and state = ?dry] b(1) r0
    by blast
  moreover have "nextText 0 (newPlant 0)
      = fmtDuration ((need (STAGES ! (stageFromGrowth (growth (newPlant 0)) + 1)) - growth (newPlant 0))
          / ?rate (newPlant 0) * 3600 * 1000)"
    using C5_eta_to_next_stage [where tNow = 0 and state = "newPlant 0"] b(2) r1'
    by blast
  then have "nextText 0 (newPlant 0) = fmtDuration ((15 - 0) / (21 / 4) * 3600 * 1000)"
    by (simp only: n r1)
  ultimately show ?thesis
    using a b f by blast
qed

subsection \<open>The pixel plant only appends\<close>

lemma drawStem_append:
  "drawStem sx tp d p = p @ map (\<lambda>y. (sx, y, d)) (rev [tp..14])"
proof -
  have "fold (\<lambda>y q. px sx y d q) ys p = p @ map (\<lambda>y. (sx, y, d)) ys" for ys
    by (induction ys arbitrary: p) (simp_all add: px_def)
  then show ?thesis
    by (simp add: drawStem_def)
qed

lemma addLeaf_append:
  "addLeaf g cx cy d p
     = p @ [(cx, cy, g), (cx + d, cy, g), (cx + 2 * d, cy + 1, g), (cx + d, cy + 1, g)]"
  by (simp add: addLeaf_def px_def)

lemma drawLeaves_append:
  "drawLeaves i g 11 p = p
     @ (if 2 \<le> i then [(11, 12, g), (10, 12, g), (9, 13, g), (10, 13, g),
                         (11, 11, g), (12, 11, g), (13, 12, g), (12, 12, g)] else [])
     @ (if 3 \<le> i then [(11, 10, g), (10, 10, g), (9, 11, g), (10, 11, g),
                         (11, 9, g), (12, 9, g), (13, 10, g), (12, 10, g)] else [])
     @ (if 4 \<le> i then [(11, 8, g), (10, 8, g), (9, 9, g), (10, 9, g),
                         (11, 7, g), (12, 7, g), (13, 8, g), (12, 8, g)] else [])"
  by (simp add: drawLeaves_def addLeaf_append)

lemma drawLeaves_Nil: "drawLeaves i g 11 p = p @ drawLeaves i g 11 []"
  by (simp add: drawLeaves_append)

lemma drawLeaves_mono: "i \<le> j \<Longrightarrow> set (drawLeaves i g 11 []) \<subseteq> set (drawLeaves j g 11 p)"
  unfolding drawLeaves_append [of i] drawLeaves_append [of j]
  by (cases "2 \<le> i"; cases "3 \<le> i"; cases "4 \<le> i") auto

lemma vineStep_append:
  assumes "vineStep side i vc vl (seed, x, y, p) = (seed', x', y', p')"
  shows "\<exists>ys. p' = p @ ys"
  using assms
  by (auto simp add: vineStep_def Let_def px_def split: if_splits)

lemma vineLoop_append:
  assumes "((vineStep side i vc vl) ^^ n) (seed, x, y, p) = (seed', x', y', p')"
  shows "\<exists>ys. p' = p @ ys"
  using assms
proof (induction n arbitrary: seed' x' y' p')
  case 0
  then show ?case by simp
next
  case (Suc n)
  obtain seed1 x1 y1 p1
    where st: "((vineStep side i vc vl) ^^ n) (seed, x, y, p) = (seed1, x1, y1, p1)"
    by (metis prod_cases4)
  from Suc.IH [OF st] obtain ys where a: "p1 = p @ ys"
    by blast
  have "vineStep side i vc vl (seed1, x1, y1, p1) = (seed', x', y', p')"
    using Suc.prems by (simp add: st)
  from vineStep_append [OF this] obtain zs where "p' = p1 @ zs"
    by blast
  with a show ?case
    by simp
qed

lemma drawVine_append:
  "\<exists>ys. snd (drawVine side i sx vc vl (seed, p)) = p @ ys"
proof -
  define seed1 where "seed1 = xorshift32 seed"
  define n where "n = nat (10 + \<lfloor>unit32 seed1 * 6\<rfloor> + (if i \<ge> 5 then 4 else 0))"
  obtain seed2 x2 y2 p2 where
    l: "((vineStep side i vc vl) ^^ n) (seed1, sx + side * 1, 12, p) = (seed2, x2, y2, p2)"
    by (metis prod_cases4)
  have "drawVine side i sx vc vl (seed, p) = (seed2, p2)"
    unfolding drawVine_def Let_def prod.case seed1_def [symmetric] n_def [symmetric] l ..
  with vineLoop_append [OF l] show ?thesis
    by simp
qed

text \<open>The scene of \<open>drawPlant\<close> begins with the pot, the stem and the leaves.\<close>

lemma drawPlant_scene:
  fixes s :: PlantState and j :: nat
  defines "g \<equiv> leafGreen (clamp (health s) 0 100)"
  defines "d \<equiv> stemDark (clamp (health s) 0 100)"
  shows "\<exists>rest. plantEl (drawPlant j s page)
     = drawPot [] @ map (\<lambda>y. (11, y, d)) (rev [14 - min (int j * 2) 10..14])
        @ drawLeaves j g 11 [] @ rest"
proof -
  let ?p2 = "drawStem 11 (14 - min (int j * 2) 10) d (drawPot [])"
  let ?p3 = "drawLeaves j g 11 ?p2"
  let ?v1 = "drawVine (- 1) j 11 d g (initSeed s, ?p3)"
  let ?v2 = "drawVine 1 j 11 d g ?v1"
  let ?p4 = "if j \<ge> 4 then snd ?v2 else ?p3"
  obtain ys where a: "snd ?v1 = ?p3 @ ys"
    using drawVine_append by blast
  obtain zs where "snd (drawVine 1 j 11 d g (fst ?v1, snd ?v1)) = snd ?v1 @ zs"
    using drawVine_append by blast
  then have b: "snd ?v2 = snd ?v1 @ zs"
    by simp
  have c: "\<exists>ws. ?p4 = ?p3 @ ws"
    using a b by simp
  have e: "\<exists>us. plantEl (drawPlant j s page) = ?p4 @ us"
    unfolding drawPlant_def Let_def px_def g_def d_def by simp
  have f: "?p3 = drawPot [] @ map (\<lambda>y. (11, y, d)) (rev [14 - min (int j * 2) 10..14])
        @ drawLeaves j g 11 []"
    by (subst drawLeaves_Nil) (simp add: drawStem_append)
  from c obtain ws where c': "?p4 = ?p3 @ ws"
    by blast
  from e obtain us where e': "plantEl (drawPlant j s page) = ?p4 @ us"
    by blast
  have "plantEl (drawPlant j s page) = ?p3 @ (ws @ us)"
    unfolding e' c' by simp
  then show ?thesis
    unfolding f by (intro exI [of _ "ws @ us"]) simp
qed

lemma drawPlantLegacy_scene:
  fixes s :: PlantState and j :: nat
  defines "g \<equiv> leafGreen (clamp (health s) 0 100)"
  defines "d \<equiv> stemDark (clamp (health s) 0 100)"
  shows "\<exists>rest. plantEl (drawPlantLegacy j s page)
     = drawPot [] @ map (\<lambda>y. (11, y, d)) (rev [14 - min (int j * 2) 10..14])
        @ drawLeaves j g 11 [] @ rest"
proof -
  let ?p2 = "drawStem 11 (14 - min (int j * 2) 10) d (drawPot [])"
  let ?p3 = "drawLeaves j g 11 ?p2"
  have e: "\<exists>us. plantEl (drawPlantLegacy j s page) = ?p3 @ us"
    unfolding drawPlantLegacy_def Let_def px_def g_def d_def by simp
  have f: "?p3 = drawPot [] @ map (\<lambda>y. (11, y, d)) (rev [14 - min (int j * 2) 10..14])
        @ drawLeaves j g 11 []"
    by (subst drawLeaves_Nil) (simp add: drawStem_append)
  from e obtain us where e': "plantEl (drawPlantLegacy j s page) = ?p3 @ us"
    by blast
  show ?thesis
    unfolding e' f by (intro exI [of _ us]) simp
qed

lemma drawPlant_keeps_leaves:
  assumes "i \<le> j"
  shows "set (drawLeaves i (leafGreen (clamp (health s) 0 100)) 11 [])
           \<subseteq> set (plantEl (drawPlant j s page))"
    and "set (drawLeaves i (leafGreen (clamp (health s) 0 100)) 11 [])
           \<subseteq> set (plantEl (drawPlantLegacy j s page))"
proof -
  obtain rest where "plantEl (drawPlant j s page)
     = drawPot [] @ map (\<lambda>y. (11, y, stemDark (clamp (health s) 0 100))) (rev [14 - min (int j * 2) 10..14])
        @ drawLeaves j (leafGreen (clamp (health s) 0 100)) 11 [] @ rest"
    using drawPlant_scene by blast
  then have "set (drawLeaves j (leafGreen (clamp (health s) 0 100)) 11 [])
      \<subseteq> set (plantEl (drawPlant j s page))"
    by auto
  with drawLeaves_mono [OF assms, of _ "[]"]
  show "set (drawLeaves i (leafGreen (clamp (health s) 0 100)) 11 [])
           \<subseteq> set (plantEl (drawPlant j s page))"
    by blast
  obtain rest where "plantEl (drawPlantLegacy j s page)
     = drawPot [] @ map (\<lambda>y. (11, y, stemDark (clamp (health s) 0 100))) (rev [14 - min (int j * 2) 10..14])
        @ drawLeaves j (leafGreen (clamp (health s) 0 100)) 11 [] @ rest"
    using drawPlantLegacy_scene by blast
  then have "set (drawLeaves j (leafGreen (clamp (health s) 0 100)) 11 [])
      \<subseteq> set (plantEl (drawPlantLegacy j s page))"
    by auto
  with drawLeaves_mono [OF assms, of _ "[]"]
  show "set (drawLeaves i (leafGreen (clamp (health s) 0 100)) 11 [])
           \<subseteq> set (plantEl (drawPlantLegacy j s page))"
    by blast
qed

lemma drawPlant_stem_base:
  "(11, 14, stemDark (clamp (health s) 0 100)) \<in> set (plantEl (drawPlant j s page))"
proof -
  have "(14::int) \<in> set (rev [14 - min (int j * 2) 10..14])"
    by simp
  then have "(11, 14, stemDark (clamp (health s) 0 100))
      \<in> set (map (\<lambda>y. (11, y, stemDark (clamp (health s) 0 100))) (rev [14 - min (int j * 2) 10..14]))"
    by (simp add: image_iff)
  with drawPlant_scene [of j s page] show ?thesis
    by auto
qed

lemma drawPlant_first_leaf:
  assumes "2 \<le> j"
  shows "(11, 12, leafGreen (clamp (health s) 0 100)) \<in> set (plantEl (drawPlant j s page))"
proof -
  have "(11, 12, leafGreen (clamp (health s) 0 100))
      \<in> set (drawLeaves 2 (leafGreen (clamp (health s) 0 100)) 11 [])"
    by (simp add: drawLeaves_append)
  with drawPlant_keeps_leaves(1) [OF assms] show ?thesis
    by blast
qed

subsection \<open>The text plant: which cells a step writes\<close>

lemma shape_put: "shape g \<Longrightarrow> shape (put x y ch g)"
  unfolding shape_def put_def
  by (auto dest!: subsetD [OF set_update_subset_insert])

lemma cell_put_other:
  assumes "0 \<le> cx" and "0 \<le> cy" and "x \<noteq> cx \<or> y \<noteq> cy"
  shows "cell (put x y ch g) cx cy = cell g cx cy"
proof (cases "x < 0 \<or> y < 0 \<or> x \<ge> 32 \<or> y \<ge> 18")
  case True
  then show ?thesis by (simp add: put_def)
next
  case False
  then have xy: "0 \<le> x" "0 \<le> y" by auto
  show ?thesis
  proof (cases "y = cy")
    case True
    then have "x \<noteq> cx" using assms(3) by simp
    then have n: "nat x \<noteq> nat cx" using xy assms(1) by simp
    show ?thesis
    proof (cases "nat y < length g")
      case True
      then show ?thesis
        using False n \<open>y = cy\<close> by (simp add: put_def cell_def)
    next
      case False
      then show ?thesis
        by (simp add: put_def cell_def list_update_beyond)
    qed
  next
    case False
    then have "nat y \<noteq> nat cy" using xy assms(2) by simp
    then show ?thesis
      by (simp add: put_def cell_def)
  qed
qed

lemma cell_put_same:
  assumes "shape g" and "0 \<le> x" and "x < 32" and "0 \<le> y" and "y < 18"
  shows "cell (put x y ch g) x y = ch"
proof -
  have "nat y < length g" using assms by (simp add: shape_def)
  moreover from this have "length (g ! nat y) = 32" using assms(1) by (simp add: shape_def)
  ultimately show ?thesis
    using assms by (simp add: put_def cell_def)
qed

lemma fold_put_shape:
  "shape g \<Longrightarrow> shape (fold (\<lambda>a. put (fx a) (fy a) (fc a)) xs g)"
  by (induction xs arbitrary: g) (simp_all add: shape_put)

lemma fold_put_other:
  assumes "0 \<le> cx" and "0 \<le> cy" and "\<forall>a \<in> set xs. fx a \<noteq> cx \<or> fy a \<noteq> cy"
  shows "cell (fold (\<lambda>a. put (fx a) (fy a) (fc a)) xs g) cx cy = cell g cx cy"
  using assms(3)
  by (induction xs arbitrary: g) (simp_all add: cell_put_other assms(1,2))

lemma shape_asciiPot: "shape g \<Longrightarrow> shape (asciiPot g)"
  unfolding asciiPot_def Let_def
  by (intro shape_put fold_put_shape [where fx = "\<lambda>x. x"])

lemma cell_asciiPot:
  assumes "0 \<le> cx" and "0 \<le> cy" and "cy < 13"
  shows "cell (asciiPot g) cx cy = cell g cx cy"
  unfolding asciiPot_def Let_def
  using assms
  by (simp add: cell_put_other fold_put_other [where fx = "\<lambda>x. x"])

lemma shape_asciiStem: "shape g \<Longrightarrow> shape (asciiStem sx tp g)"
  unfolding asciiStem_def
  by (rule fold_put_shape [where fy = "\<lambda>y. y"])

lemma cell_asciiStem:
  assumes "0 \<le> cx" and "0 \<le> cy" and "cx \<noteq> sx"
  shows "cell (asciiStem sx tp g) cx cy = cell g cx cy"
  unfolding asciiStem_def
  using assms
  by (simp add: fold_put_other [where fy = "\<lambda>y. y"])

lemma shape_leaf: "shape g \<Longrightarrow> shape (leaf sx y d g)"
  by (simp add: leaf_def Let_def shape_put)

lemma cell_leaf_other:
  assumes "0 \<le> cx" and "0 \<le> cy" and "y \<noteq> cy"
  shows "cell (leaf sx y d g) cx cy = cell g cx cy"
  using assms by (simp add: leaf_def Let_def cell_put_other)

lemma cell_leaf_left:
  assumes "shape g" and "0 \<le> y" and "y < 18"
  shows "cell (leaf 16 y (- 1) g) 15 y = CHR ''<''"
  using assms by (simp add: leaf_def Let_def cell_put_other cell_put_same shape_put)

lemma cell_leaf_right:
  assumes "shape g" and "0 \<le> y" and "y < 18"
  shows "cell (leaf 16 y 1 g) 17 y = CHR ''>''"
  using assms by (simp add: leaf_def Let_def cell_put_other cell_put_same shape_put)

lemma cell_asciiLeaves:
  assumes "shape g"
  shows "cell (asciiLeaves i 16 g) 15 11 = (if 1 \<le> i then CHR ''<'' else cell g 15 11)"
    and "cell (asciiLeaves i 16 g) 17 10 = (if 1 \<le> i then CHR ''>'' else cell g 17 10)"
    and "cell (asciiLeaves i 16 g) 15 9 = (if 2 \<le> i then CHR ''<'' else cell g 15 9)"
    and "cell (asciiLeaves i 16 g) 17 8 = (if 2 \<le> i then CHR ''>'' else cell g 17 8)"
    and "cell (asciiLeaves i 16 g) 15 7 = (if 3 \<le> i then CHR ''<'' else cell g 15 7)"
    and "cell (asciiLeaves i 16 g) 17 6 = (if 3 \<le> i then CHR ''>'' else cell g 17 6)"
  using assms
  by (simp_all add: asciiLeaves_def Let_def cell_leaf_other cell_leaf_left cell_leaf_right shape_leaf)

lemma curlStep_left:
  assumes "curlStep (- 1) i (x, y, g) = (x', y', g')" and "x \<le> 14" and "15 \<le> cx" and "0 \<le> cy"
  shows "x' \<le> 14 \<and> cell g' cx cy = cell g cx cy"
  using assms
  by (auto simp add: curlStep_def Let_def cell_put_other split: if_splits)

lemma curlStep_right:
  assumes "curlStep 1 i (x, y, g) = (x', y', g')" and "18 \<le> x"
    and "0 \<le> cx" and "cx \<le> 17" and "0 \<le> cy"
  shows "18 \<le> x' \<and> cell g' cx cy = cell g cx cy"
  using assms
  by (auto simp add: curlStep_def Let_def cell_put_other split: if_splits)

lemma curlLoop_left:
  assumes "fold (curlStep (- 1)) is (x, y, g) = (x', y', g')" and "x \<le> 14"
    and "15 \<le> cx" and "0 \<le> cy"
  shows "cell g' cx cy = cell g cx cy"
  using assms(1,2)
proof (induction "is" arbitrary: x y g)
  case Nil
  then show ?case by simp
next
  case (Cons i "is")
  obtain x1 y1 g1 where st: "curlStep (- 1) i (x, y, g) = (x1, y1, g1)"
    by (metis prod_cases3)
  from curlStep_left [OF st Cons.prems(2) assms(3,4)]
  have "x1 \<le> 14" and c: "cell g1 cx cy = cell g cx cy"
    by simp_all
  moreover have "fold (curlStep (- 1)) is (x1, y1, g1) = (x', y', g')"
    using Cons.prems(1) by (simp add: st)
  ultimately show ?case
    using Cons.IH by simp
qed

lemma curlLoop_right:
  assumes "fold (curlStep 1) is (x, y, g) = (x', y', g')" and "18 \<le> x"
    and "0 \<le> cx" and "cx \<le> 17" and "0 \<le> cy"
  shows "cell g' cx cy = cell g cx cy"
  using assms(1,2)
proof (induction "is" arbitrary: x y g)
  case Nil
  then show ?case by simp
next
  case (Cons i "is")
  obtain x1 y1 g1 where st: "curlStep 1 i (x, y, g) = (x1, y1, g1)"
    by (metis prod_cases3)
  from curlStep_right [OF st Cons.prems(2) assms(3,4,5)]
  have "18 \<le> x1" and c: "cell g1 cx cy = cell g cx cy"
    by simp_all
  moreover have "fold (curlStep 1) is (x1, y1, g1) = (x', y', g')"
    using Cons.prems(1) by (simp add: st)
  ultimately show ?case
    using Cons.IH by simp
qed

lemma curlStep_first:
  "curlStep side 0 (x, y, g) = (x + side, y, put (x + side + side) y CHR ''*''
      (put (x + side) y (if side < 0 then CHR ''/'' else CHR 0x5C) g))"
  by (simp add: curlStep_def Let_def)

lemma cell_curl_left:
  assumes "15 \<le> cx" and "0 \<le> cy"
  shows "cell (curl (- 1) i 16 seeded g) cx cy = cell g cx cy"
proof -
  define n where "n = nat (8 + (if i \<ge> 4 then 6 else 0) + jsRem seeded 4)"
  obtain x' y' g' where l: "fold (curlStep (- 1)) [0..<n] (16 + - 1, 10, g) = (x', y', g')"
    by (metis prod_cases3)
  have r: "curl (- 1) i 16 seeded g = g'"
    unfolding curl_def Let_def n_def [symmetric] l by simp
  show ?thesis
  proof (cases n)
    case 0
    then show ?thesis using l r by simp
  next
    case (Suc m)
    then have "[0..<n] = 0 # [1..<n]"
      by (simp add: upt_conv_Cons)
    then have "fold (curlStep (- 1)) [1..<n]
        (14, 10, put 13 10 CHR ''*'' (put 14 10 CHR ''/'' g)) = (x', y', g')"
      using l by (simp add: curlStep_first)
    from curlLoop_left [OF this _ assms]
    have "cell g' cx cy = cell (put 13 10 CHR ''*'' (put 14 10 CHR ''/'' g)) cx cy"
      by simp
    then show ?thesis
      using assms by (simp add: r cell_put_other)
  qed
qed

lemma cell_curl_right:
  assumes "0 \<le> cx" and "cx \<le> 17" and "0 \<le> cy"
  shows "cell (curl 1 i 16 seeded g) cx cy = cell g cx cy"
proof -
  define n where "n = nat (8 + (if i \<ge> 4 then 6 else 0) + jsRem seeded 4)"
  obtain x' y' g' where l: "fold (curlStep 1) [0..<n] (16 + 1, 10, g) = (x', y', g')"
    by (metis prod_cases3)
  have r: "curl 1 i 16 seeded g = g'"
    unfolding curl_def Let_def n_def [symmetric] l by simp
  show ?thesis
  proof (cases n)
    case 0
    then show ?thesis using l r by simp
  next
    case (Suc m)
    then have "[0..<n] = 0 # [1..<n]"
      by (simp add: upt_conv_Cons)
    then have "fold (curlStep 1) [1..<n]
        (18, 10, put 19 10 CHR ''*'' (put 18 10 CHR 0x5C g)) = (x', y', g')"
      using l by (simp add: curlStep_first)
    from curlLoop_right [OF this _ assms]
    have "cell g' cx cy = cell (put 19 10 CHR ''*'' (put 18 10 CHR 0x5C g)) cx cy"
      by simp
    then show ?thesis
      using assms by (simp add: r cell_put_other)
  qed
qed

lemma cell_title:
  assumes "1 \<le> cy"
  shows "cell (fold (\<lambda>i g. g[0 := (g ! 0)[i := t ! i]]) is g) cx cy = cell g cx cy"
proof (induction "is" arbitrary: g)
  case Nil
  then show ?case by simp
next
  case (Cons i "is")
  have "cell (g[0 := (g ! 0)[i := t ! i]]) cx cy = cell g cx cy"
    using assms by (simp add: cell_def)
  then show ?case
    by (simp add: Cons.IH)
qed

lemma shape_blank: "shape (replicate 18 (replicate 32 CHR '' ''))"
  by (simp add: shape_def)

lemma cell_blank:
  assumes "0 \<le> cx" and "cx < 32" and "0 \<le> cy" and "cy < 18"
  shows "cell (replicate 18 (replicate 32 CHR '' '')) cx cy = CHR '' ''"
  using assms by (simp add: cell_def)

text \<open>The six cells where \<open>leaf\<close> puts the heads of the leaves are written by
  nothing else: in the finished grid they hold what the block of the leaves left.\<close>

lemma asciiGrid_head_cell:
  assumes "cx = 15 \<or> cx = 17" and "6 \<le> cy" and "cy \<le> 11"
  shows "cell (asciiGrid i s) cx cy
     = cell (asciiLeaves i 16 (asciiStem 16 (11 - min (int i * 2) 8)
          (asciiPot (replicate 18 (replicate 32 CHR '' ''))))) cx cy"
proof -
  let ?g3 = "asciiLeaves i 16 (asciiStem 16 (11 - min (int i * 2) 8)
          (asciiPot (replicate 18 (replicate 32 CHR '' ''))))"
  let ?sd = "\<lfloor>real_of_int (createdAt s) / 1000\<rfloor>"
  let ?g4 = "if i \<ge> 4 then curl 1 i 16 ?sd (curl (- 1) i 16 ?sd ?g3) else ?g3"
  let ?tp = "11 - min (int i * 2) 8"
  let ?g5 = "if i \<ge> 5
             then put (16 + 1) ?tp CHR '')'' (put (16 - 1) ?tp CHR ''('' (put 16 (?tp - 1) CHR ''@'' ?g4))
             else ?g4"
  have c: "0 \<le> cx" "cx \<le> 17" "15 \<le> cx" "0 \<le> cy" "1 \<le> cy"
    using assms by auto
  have g4: "cell ?g4 cx cy = cell ?g3 cx cy"
    using c by (simp add: cell_curl_left cell_curl_right)
  have g5: "cell ?g5 cx cy = cell ?g4 cx cy"
  proof (cases "i \<ge> 5")
    case True
    then have "?tp = 3" by simp
    then show ?thesis
      using True c assms(2) by (simp add: cell_put_other)
  next
    case False
    then show ?thesis by simp
  qed
  have "cell (asciiGrid i s) cx cy = cell ?g5 cx cy"
    unfolding asciiGrid_def Let_def by (rule cell_title [OF c(5)])
  with g4 g5 show ?thesis
    by simp
qed

lemma asciiGrid_leaf_heads:
  "cell (asciiGrid i s) 15 11 = (if 1 \<le> i then CHR ''<'' else CHR '' '')"
  "cell (asciiGrid i s) 17 10 = (if 1 \<le> i then CHR ''>'' else CHR '' '')"
  "cell (asciiGrid i s) 15 9 = (if 2 \<le> i then CHR ''<'' else CHR '' '')"
  "cell (asciiGrid i s) 17 8 = (if 2 \<le> i then CHR ''>'' else CHR '' '')"
  "cell (asciiGrid i s) 15 7 = (if 3 \<le> i then CHR ''<'' else CHR '' '')"
  "cell (asciiGrid i s) 17 6 = (if 3 \<le> i then CHR ''>'' else CHR '' '')"
proof -
  let ?b = "replicate 18 (replicate 32 CHR '' '')"
  let ?g2 = "asciiStem 16 (11 - min (int i * 2) 8) (asciiPot ?b)"
  have sh: "shape ?g2"
    by (intro shape_asciiStem shape_asciiPot shape_blank)
  have b: "cell (asciiStem 16 tp (asciiPot ?b)) cx cy = CHR '' ''"
    if "cx = 15 \<or> cx = 17" "6 \<le> cy" "cy \<le> 11" for cx cy tp
    using that by (auto simp add: cell_asciiStem cell_asciiPot cell_blank)
  show "cell (asciiGrid i s) 15 11 = (if 1 \<le> i then CHR ''<'' else CHR '' '')"
    "cell (asciiGrid i s) 17 10 = (if 1 \<le> i then CHR ''>'' else CHR '' '')"
    "cell (asciiGrid i s) 15 9 = (if 2 \<le> i then CHR ''<'' else CHR '' '')"
    "cell (asciiGrid i s) 17 8 = (if 2 \<le> i then CHR ''>'' else CHR '' '')"
    "cell (asciiGrid i s) 15 7 = (if 3 \<le> i then CHR ''<'' else CHR '' '')"
    "cell (asciiGrid i s) 17 6 = (if 3 \<le> i then CHR ''>'' else CHR '' '')"
    by (simp_all add: asciiGrid_head_cell cell_asciiLeaves [OF sh] b)
qed

subsection \<open>The scene is a function of the stage index and the state\<close>

lemma initSeed_div: "initSeed s = word_of_int (createdAt s div 1000) XOR 0x9e3779b9"
proof -
  have "\<lfloor>real_of_int (createdAt s) / 1000\<rfloor> = createdAt s div 1000"
    using floor_divide_of_int_eq [of "createdAt s" 1000, where ?'a = real] by simp
  then show ?thesis
    by (simp add: initSeed_def)
qed

lemma drawPlant_same_inputs:
  assumes "initSeed s = initSeed s'" and "health s = health s'" and "hydration s = hydration s'"
  shows "plantEl (drawPlant i s p) = plantEl (drawPlant i s' q)"
  unfolding drawPlant_def Let_def assms by simp

text \<open>
  C6. The scene that \<open>drawPlant\<close> leaves in the \<^verbatim>\<open>plant\<close> element is the same for every
  call with the same stage index and state, whatever the page held before: the routine
  first empties the element, and its generator starts every call from the seed
  \<open>floor(createdAt / 1000) XOR 0x9e3779b9\<close>, so nothing of an earlier call is carried
  over (drawing twice gives the page of drawing once). The scene, vines included,
  depends on the state only through that seed, the health and the hydration. The text
  of \<open>drawAsciiPlant\<close> is likewise the same for the same stage index, state and mode.
\<close>

theorem C6_drawPlant_deterministic:
  "plantEl (drawPlant i s p) = plantEl (drawPlant i s q)
   \<and> drawPlant i s (drawPlant i s p) = drawPlant i s p
   \<and> initSeed s = word_of_int (createdAt s div 1000) XOR 0x9e3779b9
   \<and> (createdAt s div 1000 = createdAt s' div 1000 \<and> health s = health s' \<and> hydration s = hydration s'
        \<longrightarrow> plantEl (drawPlant i s p) = plantEl (drawPlant i s' q))
   \<and> asciiEl (drawAsciiPlant i s e p) = asciiEl (drawAsciiPlant i s e q)"
proof -
  have "plantEl (drawPlant i s p) = plantEl (drawPlant i s q)"
    by (rule drawPlant_same_inputs) simp_all
  moreover have "drawPlant i s (drawPlant i s p) = drawPlant i s p"
    unfolding drawPlant_def Let_def by simp
  moreover have "plantEl (drawPlant i s p) = plantEl (drawPlant i s' q)"
    if "createdAt s div 1000 = createdAt s' div 1000" "health s = health s'"
      "hydration s = hydration s'"
    using that by (intro drawPlant_same_inputs) (simp_all add: initSeed_div)
  moreover have "asciiEl (drawAsciiPlant i s e p) = asciiEl (drawAsciiPlant i s e q)"
    by (simp add: drawAsciiPlant_def)
  ultimately show ?thesis
    using initSeed_div by blast
qed

theorem C6_drawPlant_deterministic_witness:
  "createdAt (newPlant 1000) div 1000 = createdAt ((newPlant 1999)\<lparr>growth := 200\<rparr>) div 1000
   \<and> health (newPlant 1000) = health ((newPlant 1999)\<lparr>growth := 200\<rparr>)
   \<and> hydration (newPlant 1000) = hydration ((newPlant 1999)\<lparr>growth := 200\<rparr>)
   \<and> plantEl (drawPlant 5 (newPlant 1000) emptyPage)
       = plantEl (drawPlant 5 ((newPlant 1999)\<lparr>growth := 200\<rparr>) (emptyPage\<lparr>msgEl := ''Watered.''\<rparr>))"
proof -
  have h: "createdAt (newPlant 1000) div 1000 = createdAt ((newPlant 1999)\<lparr>growth := 200\<rparr>) div 1000
   \<and> health (newPlant 1000) = health ((newPlant 1999)\<lparr>growth := 200\<rparr>)
   \<and> hydration (newPlant 1000) = hydration ((newPlant 1999)\<lparr>growth := 200\<rparr>)"
    by (simp add: newPlant_def)
  with C6_drawPlant_deterministic [where i = 5 and s = "newPlant 1000" and p = emptyPage
      and s' = "(newPlant 1999)\<lparr>growth := 200\<rparr>"
      and q = "emptyPage\<lparr>msgEl := ''Watered.''\<rparr>"]
  show ?thesis
    by blast
qed

subsection \<open>Colours by health\<close>

text \<open>
  C8, as amended. For a health in [0,100] the stem and leaf colours of \<open>drawPlant\<close> are
  chosen by three bands: health \<open>> 60\<close> gives the lush pair, \<open>35 < health \<le> 60\<close> the
  stressed pair, and health \<open>\<le> 35\<close> the wilting pair, so health exactly 35 is wilting.
  The three pairs are distinct, and they are the colours of the scene: the pixel at the
  base of the stem has the stem colour and, from stage index 2, the first leaf pixel has
  the leaf colour.
\<close>

theorem C8_health_bands:
  fixes s :: PlantState and i :: nat and page :: Dom
  defines "h \<equiv> clamp (health s) 0 100"
  assumes "0 \<le> health s" and "health s \<le> 100"
  shows "(health s > 60 \<longrightarrow> (leafGreen h, stemDark h) = (''#68e36b'', ''#2ea84a''))
       \<and> (35 < health s \<and> health s \<le> 60 \<longrightarrow> (leafGreen h, stemDark h) = (''#b6df5a'', ''#7aa63b''))
       \<and> (health s \<le> 35 \<longrightarrow> (leafGreen h, stemDark h) = (''#d6c56b'', ''#9a8e39''))
       \<and> distinct [(''#68e36b'', ''#2ea84a''), (''#b6df5a'', ''#7aa63b''), (''#d6c56b'', ''#9a8e39'')]
       \<and> (11, 14, stemDark h) \<in> set (plantEl (drawPlant i s page))
       \<and> (2 \<le> i \<longrightarrow> (11, 12, leafGreen h) \<in> set (plantEl (drawPlant i s page)))"
proof -
  have "h = health s"
    using assms(2,3) by (simp add: h_def clamp_def)
  then have "(health s > 60 \<longrightarrow> (leafGreen h, stemDark h) = (''#68e36b'', ''#2ea84a''))
       \<and> (35 < health s \<and> health s \<le> 60 \<longrightarrow> (leafGreen h, stemDark h) = (''#b6df5a'', ''#7aa63b''))
       \<and> (health s \<le> 35 \<longrightarrow> (leafGreen h, stemDark h) = (''#d6c56b'', ''#9a8e39''))"
    by (simp add: leafGreen_def stemDark_def)
  moreover have "distinct [(''#68e36b'', ''#2ea84a''), (''#b6df5a'', ''#7aa63b''), (''#d6c56b'', ''#9a8e39'')]"
    by simp
  ultimately show ?thesis
    unfolding h_def using drawPlant_stem_base [of s i page] drawPlant_first_leaf [of i s page]
    by blast
qed

theorem C8_health_bands_witness:
  "0 \<le> health ((newPlant 0)\<lparr>health := 60\<rparr>) \<and> health ((newPlant 0)\<lparr>health := 60\<rparr>) \<le> 100
   \<and> 35 < health ((newPlant 0)\<lparr>health := 60\<rparr>) \<and> health ((newPlant 0)\<lparr>health := 60\<rparr>) \<le> 60
   \<and> (2::nat) \<le> 2
   \<and> (11, 14, ''#7aa63b'') \<in> set (plantEl (drawPlant 2 ((newPlant 0)\<lparr>health := 60\<rparr>) emptyPage))
   \<and> (11, 12, ''#b6df5a'') \<in> set (plantEl (drawPlant 2 ((newPlant 0)\<lparr>health := 60\<rparr>) emptyPage))"
proof -
  let ?s = "(newPlant 0)\<lparr>health := 60\<rparr>"
  have a: "0 \<le> health ?s" and b: "health ?s \<le> 100"
    by (simp_all add: newPlant_def)
  have c: "35 < health ?s \<and> health ?s \<le> 60" and d: "(2::nat) \<le> 2"
    by (simp_all add: newPlant_def)
  have e: "leafGreen (clamp (health ?s) 0 100) = ''#b6df5a''"
    "stemDark (clamp (health ?s) 0 100) = ''#7aa63b''"
    by (simp_all add: newPlant_def clamp_def leafGreen_def stemDark_def)
  show ?thesis
    using a b c d C8_health_bands [OF a b, of 2 emptyPage] unfolding e by blast
qed

text \<open>At health 35, which the claim puts in the band 35-60, the renderer uses the
  wilting pair and not the stressed one.\<close>

theorem C8_health_bands_counterexample:
  "(35::real) \<le> 35 \<and> (35::real) \<le> 60
   \<and> (leafGreen (clamp 35 0 100), stemDark (clamp 35 0 100)) \<noteq> (''#b6df5a'', ''#7aa63b'')
   \<and> (leafGreen (clamp 35 0 100), stemDark (clamp 35 0 100)) = (''#d6c56b'', ''#9a8e39'')
   \<and> (11, 14, ''#9a8e39'') \<in> set (plantEl (drawPlant 0 ((newPlant 0)\<lparr>health := 35\<rparr>) emptyPage))"
proof -
  have "stemDark (clamp (health ((newPlant 0)\<lparr>health := 35\<rparr>)) 0 100) = ''#9a8e39''"
    by (simp add: newPlant_def clamp_def stemDark_def)
  with drawPlant_stem_base [of "(newPlant 0)\<lparr>health := 35\<rparr>" 0 emptyPage]
  have "(11, 14, ''#9a8e39'') \<in> set (plantEl (drawPlant 0 ((newPlant 0)\<lparr>health := 35\<rparr>) emptyPage))"
    by simp
  then show ?thesis
    by (simp add: clamp_def leafGreen_def stemDark_def)
qed

subsection \<open>Leaves by stage\<close>

text \<open>In the text grid the vines, drawn after the leaves, overwrite the tail \<open>-\<close> of
  two leaves from stage index 4 on; the heads \<open><\<close> and \<open>>\<close> stay.\<close>

lemma asciiGrid_tail_overwritten:
  "cell (asciiGrid 3 (newPlant 0)) 14 9 = CHR ''-''
   \<and> cell (asciiGrid 4 (newPlant 0)) 14 9 = CHR ''/''
   \<and> cell (asciiGrid 3 (newPlant 0)) 18 10 = CHR ''-''
   \<and> cell (asciiGrid 4 (newPlant 0)) 18 10 = CHR 0x5C"
  by code_simp

text \<open>
  C9, as amended. In pixel mode the leaves block adds two leaves (the first attached to
  the left, \<open>dir = -1\<close>, the second to the right) when the stage index is \<open>\<ge> 2\<close>, two
  more when it is \<open>\<ge> 3\<close> and two more when it is \<open>\<ge> 4\<close>; the scene of both scripts is
  the pot, the stem, these leaf pixels and then the rest, and the leaf pixels of a stage
  are in the scene of every higher stage of the same plant. In text mode the thresholds
  are \<open>\<ge> 1\<close>, \<open>\<ge> 2\<close> and \<open>\<ge> 3\<close>: the head of each leaf, \<open><\<close> left of the stem and \<open>>\<close>
  right of it, is in the finished grid exactly from its threshold on, for every state,
  so a head once present stays at every higher stage.
\<close>

theorem C9_leaves_by_stage:
  fixes s :: PlantState and i j :: nat and page :: Dom
  defines "g \<equiv> leafGreen (clamp (health s) 0 100)"
  defines "d \<equiv> stemDark (clamp (health s) 0 100)"
  shows "drawLeaves i g 11 []
      = (if 2 \<le> i then [(11, 12, g), (10, 12, g), (9, 13, g), (10, 13, g),
                         (11, 11, g), (12, 11, g), (13, 12, g), (12, 12, g)] else [])
      @ (if 3 \<le> i then [(11, 10, g), (10, 10, g), (9, 11, g), (10, 11, g),
                         (11, 9, g), (12, 9, g), (13, 10, g), (12, 10, g)] else [])
      @ (if 4 \<le> i then [(11, 8, g), (10, 8, g), (9, 9, g), (10, 9, g),
                         (11, 7, g), (12, 7, g), (13, 8, g), (12, 8, g)] else [])
    \<and> (\<exists>rest. plantEl (drawPlant i s page)
          = drawPot [] @ map (\<lambda>y. (11, y, d)) (rev [14 - min (int i * 2) 10..14])
            @ drawLeaves i g 11 [] @ rest)
    \<and> (\<exists>rest. plantEl (drawPlantLegacy i s page)
          = drawPot [] @ map (\<lambda>y. (11, y, d)) (rev [14 - min (int i * 2) 10..14])
            @ drawLeaves i g 11 [] @ rest)
    \<and> (i \<le> j \<longrightarrow> set (drawLeaves i g 11 []) \<subseteq> set (plantEl (drawPlant j s page))
                \<and> set (drawLeaves i g 11 []) \<subseteq> set (plantEl (drawPlantLegacy j s page)))
    \<and> cell (asciiGrid i s) 15 11 = (if 1 \<le> i then CHR ''<'' else CHR '' '')
    \<and> cell (asciiGrid i s) 17 10 = (if 1 \<le> i then CHR ''>'' else CHR '' '')
    \<and> cell (asciiGrid i s) 15 9 = (if 2 \<le> i then CHR ''<'' else CHR '' '')
    \<and> cell (asciiGrid i s) 17 8 = (if 2 \<le> i then CHR ''>'' else CHR '' '')
    \<and> cell (asciiGrid i s) 15 7 = (if 3 \<le> i then CHR ''<'' else CHR '' '')
    \<and> cell (asciiGrid i s) 17 6 = (if 3 \<le> i then CHR ''>'' else CHR '' '')"
proof -
  have a: "drawLeaves i g 11 []
      = (if 2 \<le> i then [(11, 12, g), (10, 12, g), (9, 13, g), (10, 13, g),
                         (11, 11, g), (12, 11, g), (13, 12, g), (12, 12, g)] else [])
      @ (if 3 \<le> i then [(11, 10, g), (10, 10, g), (9, 11, g), (10, 11, g),
                         (11, 9, g), (12, 9, g), (13, 10, g), (12, 10, g)] else [])
      @ (if 4 \<le> i then [(11, 8, g), (10, 8, g), (9, 9, g), (10, 9, g),
                         (11, 7, g), (12, 7, g), (13, 8, g), (12, 8, g)] else [])"
    using drawLeaves_append [of i g "[]"] by simp
  have b: "\<exists>rest. plantEl (drawPlant i s page)
          = drawPot [] @ map (\<lambda>y. (11, y, d)) (rev [14 - min (int i * 2) 10..14])
            @ drawLeaves i g 11 [] @ rest"
    unfolding g_def d_def by (rule drawPlant_scene)
  have c: "\<exists>rest. plantEl (drawPlantLegacy i s page)
          = drawPot [] @ map (\<lambda>y. (11, y, d)) (rev [14 - min (int i * 2) 10..14])
            @ drawLeaves i g 11 [] @ rest"
    unfolding g_def d_def by (rule drawPlantLegacy_scene)
  have e: "i \<le> j \<longrightarrow> set (drawLeaves i g 11 []) \<subseteq> set (plantEl (drawPlant j s page))
                \<and> set (drawLeaves i g 11 []) \<subseteq> set (plantEl (drawPlantLegacy j s page))"
    unfolding g_def using drawPlant_keeps_leaves [of i j s page] by blast
  show ?thesis
    by (intro conjI a b c e asciiGrid_leaf_heads)
qed

theorem C9_leaves_by_stage_witness:
  "(2::nat) \<le> 5
   \<and> set (drawLeaves 2 ''#68e36b'' 11 []) \<subseteq> set (plantEl (drawPlant 5 (newPlant 0) emptyPage))
   \<and> set (drawLeaves 2 ''#68e36b'' 11 []) \<subseteq> set (plantEl (drawPlantLegacy 5 (newPlant 0) emptyPage))
   \<and> drawLeaves 2 ''#68e36b'' 11 []
       = [(11, 12, ''#68e36b''), (10, 12, ''#68e36b''), (9, 13, ''#68e36b''), (10, 13, ''#68e36b''),
          (11, 11, ''#68e36b''), (12, 11, ''#68e36b''), (13, 12, ''#68e36b''), (12, 12, ''#68e36b'')]
   \<and> cell (asciiGrid 2 (newPlant 0)) 15 9 = CHR ''<''
   \<and> cell (asciiGrid 2 (newPlant 0)) 15 7 = CHR '' ''"
proof -
  have g: "leafGreen (clamp (health (newPlant 0)) 0 100) = ''#68e36b''"
    by (simp add: newPlant_def clamp_def leafGreen_def)
  have h: "(2::nat) \<le> 5"
    by simp
  note t = C9_leaves_by_stage [where i = 2 and j = 5 and s = "newPlant 0" and page = emptyPage,
      unfolded g]
  from t h have a: "set (drawLeaves 2 ''#68e36b'' 11 []) \<subseteq> set (plantEl (drawPlant 5 (newPlant 0) emptyPage))
      \<and> set (drawLeaves 2 ''#68e36b'' 11 []) \<subseteq> set (plantEl (drawPlantLegacy 5 (newPlant 0) emptyPage))"
    by blast
  from t have "cell (asciiGrid 2 (newPlant 0)) 15 9 = (if (2::nat) \<le> 2 then CHR ''<'' else CHR '' '')"
    and "cell (asciiGrid 2 (newPlant 0)) 15 7 = (if (3::nat) \<le> 2 then CHR ''<'' else CHR '' '')"
    by blast+
  then have b: "cell (asciiGrid 2 (newPlant 0)) 15 9 = CHR ''<''"
    "cell (asciiGrid 2 (newPlant 0)) 15 7 = CHR '' ''"
    by simp_all
  from t have "drawLeaves 2 ''#68e36b'' 11 []
      = (if (2::nat) \<le> 2 then [(11, 12, ''#68e36b''), (10, 12, ''#68e36b''), (9, 13, ''#68e36b''), (10, 13, ''#68e36b''),
                         (11, 11, ''#68e36b''), (12, 11, ''#68e36b''), (13, 12, ''#68e36b''), (12, 12, ''#68e36b'')] else [])
      @ (if (3::nat) \<le> 2 then [(11, 10, ''#68e36b''), (10, 10, ''#68e36b''), (9, 11, ''#68e36b''), (10, 11, ''#68e36b''),
                         (11, 9, ''#68e36b''), (12, 9, ''#68e36b''), (13, 10, ''#68e36b''), (12, 10, ''#68e36b'')] else [])
      @ (if (4::nat) \<le> 2 then [(11, 8, ''#68e36b''), (10, 8, ''#68e36b''), (9, 9, ''#68e36b''), (10, 9, ''#68e36b''),
                         (11, 7, ''#68e36b''), (12, 7, ''#68e36b''), (13, 8, ''#68e36b''), (12, 8, ''#68e36b'')] else [])"
    by blast
  then have c: "drawLeaves 2 ''#68e36b'' 11 []
       = [(11, 12, ''#68e36b''), (10, 12, ''#68e36b''), (9, 13, ''#68e36b''), (10, 13, ''#68e36b''),
          (11, 11, ''#68e36b''), (12, 11, ''#68e36b''), (13, 12, ''#68e36b''), (12, 12, ''#68e36b'')]"
    by simp
  from h a b c show ?thesis
    by blast
qed

text \<open>In text mode the first two leaves are there at stage index 1 already (and not
  at 0), where the pixel plant has none.\<close>

theorem C9_leaves_by_stage_counterexample:
  "cell (asciiGrid 1 (newPlant 0)) 15 11 = CHR ''<''
   \<and> cell (asciiGrid 1 (newPlant 0)) 17 10 = CHR ''>''
   \<and> cell (asciiGrid 0 (newPlant 0)) 15 11 = CHR '' ''
   \<and> cell (asciiGrid 0 (newPlant 0)) 17 10 = CHR '' ''
   \<and> drawLeaves 1 (leafGreen (clamp (health (newPlant 0)) 0 100)) 11 [] = []"
  by (simp add: asciiGrid_leaf_heads drawLeaves_append)

section \<open>Properties of loading and startup\<close>

text \<open>
  C10, as amended. Loading never raises: \<open>loadState\<close> and the startup always return a
  value. When the read of the record throws, when there is no record or it is the empty
  text, when the parser throws on it, or when it parses to a falsy value (\<^verbatim>\<open>null\<close>,
  \<^verbatim>\<open>false\<close>, 0, the empty string), the program starts with a newly created plant.
  A record that parses to any other JSON value is taken as the state as it is: the
  code does not check that it has the fields of a PlantState.
\<close>

theorem C10_load_falls_back:
  "(\<exists>v. loadState g p = Inr v) \<and> (\<exists>st. startup g p t = Inr st)
 \<and> (\<forall>e. g = Inl e \<longrightarrow> loadState g p = Inr JNull \<and> startup g p t = Inr (Created (newPlant t)))
 \<and> (g = Inr None \<or> g = Inr (Some []) \<longrightarrow>
      loadState g p = Inr JNull \<and> startup g p t = Inr (Created (newPlant t)))
 \<and> (\<forall>raw e. g = Inr (Some raw) \<and> p raw = Inl e \<longrightarrow>
      loadState g p = Inr JNull \<and> startup g p t = Inr (Created (newPlant t)))
 \<and> (\<forall>raw v. g = Inr (Some raw) \<and> raw \<noteq> [] \<and> p raw = Inr v \<and> \<not> truthy v \<longrightarrow>
      loadState g p = Inr v \<and> startup g p t = Inr (Created (newPlant t)))
 \<and> (\<forall>raw v. g = Inr (Some raw) \<and> raw \<noteq> [] \<and> p raw = Inr v \<and> truthy v \<longrightarrow>
      loadState g p = Inr v \<and> startup g p t = Inr (Loaded v))"
  by (auto simp add: loadState_def loadStateTry_def startup_def split: sum.splits option.splits)

theorem C10_load_falls_back_witness:
  "parseSample ''{oops'' = Inl Thrown
   \<and> loadState (Inr (Some ''{oops'')) parseSample = Inr JNull
   \<and> startup (Inr (Some ''{oops'')) parseSample 5 = Inr (Created (newPlant 5))
   \<and> startup (Inl Thrown) parseSample 5 = Inr (Created (newPlant 5))
   \<and> startup (Inr None) parseSample 5 = Inr (Created (newPlant 5))
   \<and> parseSample ''null'' = Inr JNull \<and> \<not> truthy JNull
   \<and> startup (Inr (Some ''null'')) parseSample 5 = Inr (Created (newPlant 5))"
proof -
  have a: "parseSample ''{oops'' = Inl Thrown" "parseSample ''null'' = Inr JNull"
    "''null'' \<noteq> []" "\<not> truthy JNull"
    by (simp_all add: parseSample_def)
  have "loadState (Inr (Some ''{oops'')) parseSample = Inr JNull
     \<and> startup (Inr (Some ''{oops'')) parseSample 5 = Inr (Created (newPlant 5))"
    using C10_load_falls_back [where g = "Inr (Some ''{oops'')" and p = parseSample and t = 5] a(1)
    by blast
  moreover have "startup (Inl Thrown) parseSample 5 = Inr (Created (newPlant 5))"
    using C10_load_falls_back [where g = "Inl Thrown" and p = parseSample and t = 5]
    by blast
  moreover have "startup (Inr None) parseSample 5 = Inr (Created (newPlant 5))"
    using C10_load_falls_back [where g = "Inr None" and p = parseSample and t = 5]
    by blast
  moreover have "startup (Inr (Some ''null'')) parseSample 5 = Inr (Created (newPlant 5))"
    using C10_load_falls_back [where g = "Inr (Some ''null'')" and p = parseSample and t = 5] a(2,3,4)
    by blast
  ultimately show ?thesis
    using a by blast
qed

text \<open>The record \<^verbatim>\<open>{}\<close> parses, has none of the fields of a PlantState, and is the
  state the program starts with; no new plant is created.\<close>

theorem C10_load_falls_back_counterexample:
  "parseSample ''{}'' = Inr (JObj [])
   \<and> loadState (Inr (Some ''{}'')) parseSample = Inr (JObj [])
   \<and> startup (Inr (Some ''{}'')) parseSample 5 = Inr (Loaded (JObj []))
   \<and> startup (Inr (Some ''{}'')) parseSample 5 \<noteq> Inr (Created (newPlant 5))"
  by (simp add: loadState_def loadStateTry_def startup_def parseSample_def)

end
